theory Spec2Isabelle
  imports
    Complex_Main
    "HOL-Library.Sublist"
    "HOL-Library.Char_ord"
    "HOL-Library.List_Lexorder"
begin

section \<open>JavaScript values used by the code\<close>

text \<open>
  Counters and attempt numbers are JavaScript numbers that only ever hold integers in this
  code; they are modelled as \<open>int\<close>. A concurrency limit is a number that comes from the
  caller and that nothing validates: it is modelled as a rational, and the optional
  parameter \<open>concurrencyLimit?: number\<close> as a \<open>rat option\<close>, \<open>None\<close> being \<open>undefined\<close>
  (\<open>NaN\<close> is falsy like \<open>undefined\<close>, and the table refuses an infinite number).
  \<open>toString\<close> is \<open>Number.prototype.toString\<close> on an integer (used by template strings).
\<close>

definition digit_char :: "nat \<Rightarrow> char" where
  "digit_char d =
     (if d = 0 then CHR ''0'' else if d = 1 then CHR ''1'' else if d = 2 then CHR ''2''
      else if d = 3 then CHR ''3'' else if d = 4 then CHR ''4'' else if d = 5 then CHR ''5''
      else if d = 6 then CHR ''6'' else if d = 7 then CHR ''7'' else if d = 8 then CHR ''8''
      else CHR ''9'')"

fun nat_toString :: "nat \<Rightarrow> string" where
  "nat_toString n =
     (if n < 10 then [digit_char n] else nat_toString (n div 10) @ [digit_char (n mod 10)])"

declare nat_toString.simps [simp del]

definition toString :: "int \<Rightarrow> string" where
  "toString i = (if i < 0 then CHR ''-'' # nat_toString (nat (- i)) else nat_toString (nat i))"

text \<open>\<open>a || b\<close> on an optional number: \<open>undefined\<close> and \<open>0\<close> are falsy.\<close>

definition or_default :: "'a::zero option \<Rightarrow> 'a \<Rightarrow> 'a" where
  "or_default v d = (case v of None \<Rightarrow> d | Some n \<Rightarrow> if n = 0 then d else n)"

text \<open>
  \<open>parseInt(s, 10)\<close> on the decimal digits of a number, which is how the table returns a
  number attribute: the integer part, rounding towards zero.
\<close>

definition parseInt :: "rat \<Rightarrow> int" where
  "parseInt r = (if r < 0 then \<lceil>r\<rceil> else \<lfloor>r\<rfloor>)"

section \<open>Errors\<close>

text \<open>
  Every exception the modelled code throws is a value of \<open>error\<close>.
  \<open>ConcurrencyLimitExceededError message tenantId currentCount limit\<close> is the class of
  \<open>shared/concurrency.ts\<close>; \<open>NotFoundError\<close>, \<open>ForbiddenError\<close> and \<open>ConflictError\<close> are the
  \<open>AppError\<close> subclasses of \<open>shared/errors.ts\<close> with their messages; \<open>Error name message\<close>
  is any other JavaScript \<open>Error\<close> (a failed database statement, a failed object-store
  request, what a stage operation throws).
\<close>

datatype error =
    ConcurrencyLimitExceededError string string int int
  | NotFoundError string
  | ForbiddenError string
  | ConflictError string
  | Error string string

section \<open>shared/concurrency.ts: the per-tenant counter\<close>

text \<open>
  The counter table is keyed by \<open>tenant_id\<close>. The only statement that creates an item is
  the update of \<open>incrementConcurrency\<close>, which sets \<open>current_count\<close> and
  \<open>concurrency_limit\<close> together, so an item has both attributes. The count is an integer
  (it starts at 0 and moves by 1); the limit is the number the first acquire was given,
  stored as \<open>limit.toString()\<close>. The attribute \<open>updated_at\<close> is written by both updates
  and read by nothing; it is left out.
  The table itself is taken to answer every request (its failures are rethrown by the code
  unchanged).
\<close>

record item =
  current_count :: int
  concurrency_limit :: rat

type_synonym concurrency_table = "string \<rightharpoonup> item"

definition DEFAULT_CONCURRENCY_LIMIT :: int where
  "DEFAULT_CONCURRENCY_LIMIT = 10"

record ConcurrencyStatus =
  tenantId :: string
  currentCount :: int
  limit :: int
  available :: int

text \<open>
  \<open>getCurrentConcurrency\<close>: a read; an absent item reads as count 0 and the default limit.
  Here and in the two updates the attributes of the item are read with \<open>parseInt\<close>.
\<close>

definition getCurrentConcurrency :: "string \<Rightarrow> concurrency_table \<Rightarrow> ConcurrencyStatus" where
  "getCurrentConcurrency tenant tbl =
     (let cnt = (case tbl tenant of None \<Rightarrow> 0 | Some it \<Rightarrow> current_count it);
          lim = (case tbl tenant of None \<Rightarrow> DEFAULT_CONCURRENCY_LIMIT
                 | Some it \<Rightarrow> parseInt (concurrency_limit it))
      in \<lparr>tenantId = tenant, currentCount = cnt, limit = lim, available = max 0 (lim - cnt)\<rparr>)"

text \<open>
  \<open>incrementConcurrency\<close>: one conditional update. The condition is
  \<open>attribute_not_exists(current_count) OR current_count < concurrency_limit\<close>; the update sets
  \<open>current_count = if_not_exists(current_count, 0) + 1\<close> and
  \<open>concurrency_limit = if_not_exists(concurrency_limit, :limit)\<close> and returns the new item.
  When the condition fails the code reads the item back and throws.
\<close>

definition incrementConcurrency ::
  "string \<Rightarrow> rat option \<Rightarrow> concurrency_table
     \<Rightarrow> (error + ConcurrencyStatus) \<times> concurrency_table" where
  "incrementConcurrency tenant concurrencyLimit tbl =
     (let lim = or_default concurrencyLimit (of_int DEFAULT_CONCURRENCY_LIMIT) in
      case tbl tenant of
        None \<Rightarrow>
          (let new = \<lparr>current_count = 0 + 1, concurrency_limit = lim\<rparr>
           in (Inr \<lparr>tenantId = tenant, currentCount = current_count new,
                    limit = parseInt (concurrency_limit new),
                    available = max 0 (parseInt (concurrency_limit new) - current_count new)\<rparr>,
               tbl(tenant \<mapsto> new)))
      | Some it \<Rightarrow>
          if of_int (current_count it) < concurrency_limit it then
            (let new = it\<lparr>current_count := current_count it + 1\<rparr>
             in (Inr \<lparr>tenantId = tenant, currentCount = current_count new,
                      limit = parseInt (concurrency_limit new),
                      available = max 0 (parseInt (concurrency_limit new) - current_count new)\<rparr>,
                 tbl(tenant \<mapsto> new)))
          else
            (let status = getCurrentConcurrency tenant tbl
             in (Inl (ConcurrencyLimitExceededError
                        (''Tenant '' @ tenant @ '' has reached concurrency limit of ''
                           @ toString (limit status))
                        tenant (currentCount status) (limit status)),
                 tbl)))"

text \<open>
  \<open>decrementConcurrency\<close>: one conditional update with condition \<open>current_count > 0\<close>
  (false on an absent item). When the condition fails the code returns a status built
  from constants.
\<close>

definition decrementConcurrency ::
  "string \<Rightarrow> concurrency_table \<Rightarrow> (error + ConcurrencyStatus) \<times> concurrency_table" where
  "decrementConcurrency tenant tbl =
     (case tbl tenant of
        None \<Rightarrow>
          (Inr \<lparr>tenantId = tenant, currentCount = 0, limit = DEFAULT_CONCURRENCY_LIMIT,
                available = DEFAULT_CONCURRENCY_LIMIT\<rparr>, tbl)
      | Some it \<Rightarrow>
          if current_count it > 0 then
            (let new = it\<lparr>current_count := current_count it - 1\<rparr>
             in (Inr \<lparr>tenantId = tenant, currentCount = current_count new,
                      limit = parseInt (concurrency_limit new),
                      available = max 0 (parseInt (concurrency_limit new) - current_count new)\<rparr>,
                 tbl(tenant \<mapsto> new)))
          else
            (Inr \<lparr>tenantId = tenant, currentCount = 0, limit = DEFAULT_CONCURRENCY_LIMIT,
                  available = DEFAULT_CONCURRENCY_LIMIT\<rparr>, tbl))"

definition acquireConcurrencySlot ::
  "string \<Rightarrow> rat option \<Rightarrow> concurrency_table
     \<Rightarrow> (error + ConcurrencyStatus) \<times> concurrency_table" where
  "acquireConcurrencySlot tenant concurrencyLimit tbl =
     incrementConcurrency tenant concurrencyLimit tbl"

definition releaseConcurrencySlot ::
  "string \<Rightarrow> concurrency_table \<Rightarrow> (error + ConcurrencyStatus) \<times> concurrency_table" where
  "releaseConcurrencySlot tenant tbl = decrementConcurrency tenant tbl"

text \<open>
  \<open>withConcurrencyControl\<close>: acquire, run the operation, release in \<open>finally\<close> when the
  slot was acquired. The operation is given by what it returns or throws; it does not
  touch the counter table.
\<close>

definition withConcurrencyControl ::
  "string \<Rightarrow> (error + 'a) \<Rightarrow> rat option \<Rightarrow> concurrency_table
     \<Rightarrow> (error + 'a) \<times> concurrency_table" where
  "withConcurrencyControl tenant operation concurrencyLimit tbl =
     (case acquireConcurrencySlot tenant concurrencyLimit tbl of
        (Inl e, tbl1) \<Rightarrow> (Inl e, tbl1)
      | (Inr _, tbl1) \<Rightarrow> (operation, snd (releaseConcurrencySlot tenant tbl1)))"

subsection \<open>Sequences of calls for one tenant\<close>

datatype slot_call = Acquire "rat option" | Release

definition slot_step :: "string \<Rightarrow> slot_call \<Rightarrow> concurrency_table \<Rightarrow> concurrency_table" where
  "slot_step tenant c tbl =
     (case c of
        Acquire l \<Rightarrow> snd (acquireConcurrencySlot tenant l tbl)
      | Release \<Rightarrow> snd (releaseConcurrencySlot tenant tbl))"

fun slot_run :: "string \<Rightarrow> slot_call list \<Rightarrow> concurrency_table \<Rightarrow> concurrency_table" where
  "slot_run tenant [] tbl = tbl"
| "slot_run tenant (c # cs) tbl = slot_run tenant cs (slot_step tenant c tbl)"

text \<open>The limit a call asks for, after the default has been applied.\<close>

fun requested_limit :: "slot_call \<Rightarrow> rat" where
  "requested_limit (Acquire l) = or_default l (of_int DEFAULT_CONCURRENCY_LIMIT)"
| "requested_limit Release = of_int DEFAULT_CONCURRENCY_LIMIT"

text \<open>
  The counter of a tenant is within its stored limit (an absent item counts 0), and the
  stored limit is an integer.
\<close>

definition slot_in_range :: "item option \<Rightarrow> bool" where
  "slot_in_range s =
     (case s of None \<Rightarrow> True
      | Some it \<Rightarrow> 0 \<le> current_count it \<and> of_int (current_count it) \<le> concurrency_limit it)"

definition integer_limit :: "item option \<Rightarrow> bool" where
  "integer_limit s = (case s of None \<Rightarrow> True | Some it \<Rightarrow> concurrency_limit it \<in> \<int>)"

section \<open>The data model (types.ts) and the stores\<close>

text \<open>
  Timestamps (\<open>Date\<close>, \<open>TIMESTAMPTZ\<close>) are milliseconds since the epoch, as an \<open>int\<close>.
  The constructor \<open>FAILED\<close> is the job status; the document status of the same name is
  \<open>FAILED_document\<close>.
\<close>

datatype DocumentStatus =
  UPLOADING | UPLOADED | PROCESSING | READY | FAILED_document | DELETED | DELETING

datatype JobType = OCR | THUMBNAIL | PDF_SPLIT | MALWARE_SCAN

datatype JobStatus = PENDING | RUNNING | COMPLETED | FAILED

record Document =
  doc_id :: string
  doc_tenantId :: string
  doc_name :: string
  ownerId :: string
  doc_status :: DocumentStatus
  legalHold :: bool
  deletedAt :: "int option"
  retentionDays :: int
  createdAt :: int
  updatedAt :: int

record DocumentVersion =
  ver_id :: string
  ver_documentId :: string
  versionNumber :: int
  s3Key :: string
  s3Bucket :: string

record ProcessingJob =
  job_id :: string
  job_documentId :: string
  job_versionId :: string
  job_jobType :: string
  job_status :: JobStatus
  attempts :: int
  errorMessage :: "string option"
  startedAt :: "int option"
  completedAt :: "int option"

text \<open>
  The values of the properties of a JavaScript object that the modelled code reads; an
  object is a map from property names, a missing property reading as \<open>undefined\<close>
  (\<open>None\<close>).
\<close>

datatype js_value = JString string | JBoolean bool | JDate int | JNull

type_synonym js_object = "string \<rightharpoonup> js_value"

record AuditLog =
  log_tenantId :: string
  log_userId :: "string option"
  log_action :: string
  log_documentId :: "string option"
  log_ipAddress :: "string option"
  log_metadata :: "(string \<times> js_value) list"

record HardDeleteMessage =
  msg_documentId :: string
  msg_tenantId :: string

text \<open>
  The SQL statements the modelled code sends, one constructor per statement text, with
  the statement's parameters.
\<close>

datatype statement =
    SELECT_document string
  | SELECT_document_of_tenant string string
  | SELECT_document_versions string
  | SELECT_expired_documents DocumentStatus
  | UPDATE_job_running string string string
  | UPDATE_job_pending string string string
  | UPDATE_job_completed JobStatus string string string
  | UPDATE_job_failed string string string string
  | UPDATE_document_deleted DocumentStatus int string
  | UPDATE_document_status DocumentStatus string
  | INSERT_audit_log AuditLog
  | DELETE_processing_jobs string
  | DELETE_document_versions string
  | DELETE_document string
  | BEGIN
  | COMMIT
  | ROLLBACK

text \<open>
  The world the handlers run in: the counter table, the four tables of the row store, the
  keys of the bucket and the hard-delete queue. \<open>executed\<close> records the statements the
  row store has executed, in order. \<open>db_faults\<close> and \<open>s3_faults\<close> script the answers of
  the row store and of the object store to the next requests: \<open>True\<close> is a request that
  fails (the client throws), and an exhausted script means every further request succeeds.
  \<open>max_keys\<close> is the page size of a listing (1000 in the service).
\<close>

record world =
  concurrency :: concurrency_table
  documents :: "Document list"
  document_versions :: "DocumentVersion list"
  processing_jobs :: "ProcessingJob list"
  audit_logs :: "AuditLog list"
  executed :: "statement list"
  db_faults :: "bool list"
  objects :: "string list"
  max_keys :: nat
  s3_faults :: "bool list"
  hard_delete_queue :: "HardDeleteMessage list"

definition DAY_MS :: int where
  "DAY_MS = 24 * 60 * 60 * 1000"

definition job_matches :: "string \<Rightarrow> string \<Rightarrow> string \<Rightarrow> ProcessingJob \<Rightarrow> bool" where
  "job_matches d v j job \<longleftrightarrow>
     job_documentId job = d \<and> job_versionId job = v \<and> job_jobType job = j"

text \<open>
  What a statement does to the tables; \<open>now\<close> is the value of \<open>NOW()\<close>. A \<open>SELECT\<close> and
  the transaction control statements change no row (a rollback is part of
  \<open>withTransaction\<close> below).
\<close>

fun effect :: "statement \<Rightarrow> int \<Rightarrow> world \<Rightarrow> world" where
  "effect (UPDATE_job_running d v j) now w =
     w\<lparr>processing_jobs := map (\<lambda>job. if job_matches d v j job
          then job\<lparr>job_status := RUNNING, startedAt := Some now\<rparr> else job) (processing_jobs w)\<rparr>"
| "effect (UPDATE_job_pending d v j) now w =
     w\<lparr>processing_jobs := map (\<lambda>job. if job_matches d v j job
          then job\<lparr>job_status := PENDING, attempts := attempts job + 1\<rparr> else job)
          (processing_jobs w)\<rparr>"
| "effect (UPDATE_job_completed st d v j) now w =
     w\<lparr>processing_jobs := map (\<lambda>job. if job_matches d v j job
          then job\<lparr>job_status := st, completedAt := Some now\<rparr> else job) (processing_jobs w)\<rparr>"
| "effect (UPDATE_job_failed m d v j) now w =
     w\<lparr>processing_jobs := map (\<lambda>job. if job_matches d v j job
          then job\<lparr>job_status := FAILED, errorMessage := Some m, completedAt := Some now\<rparr>
          else job) (processing_jobs w)\<rparr>"
| "effect (UPDATE_document_deleted st ts i) now w =
     w\<lparr>documents := map (\<lambda>doc. if doc_id doc = i
          then doc\<lparr>doc_status := st, deletedAt := Some ts, updatedAt := now\<rparr> else doc)
          (documents w)\<rparr>"
| "effect (UPDATE_document_status st i) now w =
     w\<lparr>documents := map (\<lambda>doc. if doc_id doc = i
          then doc\<lparr>doc_status := st, updatedAt := now\<rparr> else doc) (documents w)\<rparr>"
| "effect (INSERT_audit_log l) now w = w\<lparr>audit_logs := audit_logs w @ [l]\<rparr>"
| "effect (DELETE_processing_jobs d) now w =
     w\<lparr>processing_jobs := filter (\<lambda>job. job_documentId job \<noteq> d) (processing_jobs w)\<rparr>"
| "effect (DELETE_document_versions d) now w =
     w\<lparr>document_versions := filter (\<lambda>v. ver_documentId v \<noteq> d) (document_versions w)\<rparr>"
| "effect (DELETE_document d) now w =
     w\<lparr>documents := filter (\<lambda>doc. doc_id doc \<noteq> d) (documents w)\<rparr>"
| "effect _ now w = w"

text \<open>The rows a \<open>SELECT\<close> of documents returns.\<close>

fun document_rows :: "statement \<Rightarrow> int \<Rightarrow> world \<Rightarrow> Document list" where
  "document_rows (SELECT_document i) now w = filter (\<lambda>doc. doc_id doc = i) (documents w)"
| "document_rows (SELECT_document_of_tenant i t) now w =
     filter (\<lambda>doc. doc_id doc = i \<and> doc_tenantId doc = t) (documents w)"
| "document_rows (SELECT_expired_documents st) now w =
     filter (\<lambda>doc. doc_status doc = st \<and> deletedAt doc \<noteq> None \<and> legalHold doc = False
               \<and> now - the (deletedAt doc) > retentionDays doc * DAY_MS) (documents w)"
| "document_rows _ now w = []"

fun version_rows :: "statement \<Rightarrow> int \<Rightarrow> world \<Rightarrow> DocumentVersion list" where
  "version_rows (SELECT_document_versions d) now w =
     filter (\<lambda>v. ver_documentId v = d) (document_versions w)"
| "version_rows _ now w = []"

definition no_rows :: "statement \<Rightarrow> int \<Rightarrow> world \<Rightarrow> unit list" where
  "no_rows stmt now w = []"

text \<open>
  \<open>query\<close> of \<open>shared/db.ts\<close>: send one statement and return its rows, or throw. The second
  argument says which rows the statement returns.
\<close>

definition query ::
  "statement \<Rightarrow> (statement \<Rightarrow> int \<Rightarrow> world \<Rightarrow> 'r list) \<Rightarrow> int \<Rightarrow> world
     \<Rightarrow> (error + 'r list) \<times> world" where
  "query stmt rows now w =
     (case db_faults w of
        True # fs \<Rightarrow> (Inl (Error ''DatabaseError'' ''statement failed''), w\<lparr>db_faults := fs\<rparr>)
      | _ \<Rightarrow> (Inr (rows stmt now w),
               (effect stmt now w)\<lparr>executed := executed w @ [stmt], db_faults := tl (db_faults w)\<rparr>))"

text \<open>\<open>queryOne\<close>: \<open>rows[0] || null\<close>.\<close>

definition queryOne ::
  "statement \<Rightarrow> (statement \<Rightarrow> int \<Rightarrow> world \<Rightarrow> 'r list) \<Rightarrow> int \<Rightarrow> world
     \<Rightarrow> (error + 'r option) \<times> world" where
  "queryOne stmt rows now w =
     (case query stmt rows now w of
        (Inl e, w1) \<Rightarrow> (Inl e, w1)
      | (Inr rs, w1) \<Rightarrow> (Inr (case rs of [] \<Rightarrow> None | r # _ \<Rightarrow> Some r), w1))"

text \<open>
  \<open>withTransaction\<close>: \<open>BEGIN\<close>, the callback, \<open>COMMIT\<close>; when any of them throws,
  \<open>ROLLBACK\<close> and rethrow. A rollback restores the four tables to what they were at
  \<open>BEGIN\<close>; an error of the \<open>ROLLBACK\<close> statement itself replaces the one being rethrown.
  Obtaining the connection from the pool is taken to succeed.
\<close>

definition restore_tables :: "world \<Rightarrow> world \<Rightarrow> world" where
  "restore_tables w0 w =
     w\<lparr>documents := documents w0, document_versions := document_versions w0,
       processing_jobs := processing_jobs w0, audit_logs := audit_logs w0\<rparr>"

definition rollback :: "error \<Rightarrow> world \<Rightarrow> int \<Rightarrow> world \<Rightarrow> (error + 'a) \<times> world" where
  "rollback e w0 now w =
     (case query ROLLBACK no_rows now (restore_tables w0 w) of
        (Inl e', w1) \<Rightarrow> (Inl e', w1)
      | (Inr _, w1) \<Rightarrow> (Inl e, w1))"

definition withTransaction ::
  "(int \<Rightarrow> world \<Rightarrow> (error + 'a) \<times> world) \<Rightarrow> int \<Rightarrow> world \<Rightarrow> (error + 'a) \<times> world" where
  "withTransaction callback now w =
     (case query BEGIN no_rows now w of
        (Inl e, w1) \<Rightarrow> rollback e w now w1
      | (Inr _, w1) \<Rightarrow>
          (case callback now w1 of
             (Inl e, w2) \<Rightarrow> rollback e w now w2
           | (Inr result, w2) \<Rightarrow>
               (case query COMMIT no_rows now w2 of
                  (Inl e, w3) \<Rightarrow> rollback e w now w3
                | (Inr _, w3) \<Rightarrow> (Inr result, w3))))"

text \<open>\<open>createAuditLog\<close> of \<open>shared/audit.ts\<close>: one insert; a failure is logged and swallowed.\<close>

definition createAuditLog :: "AuditLog \<Rightarrow> int \<Rightarrow> world \<Rightarrow> world" where
  "createAuditLog l now w = snd (query (INSERT_audit_log l) no_rows now w)"

section \<open>workers/processing-orchestrator.ts\<close>

datatype ResponseStatus = ACCEPTED | QUEUED | REJECTED

record ProcessingRequest =
  req_documentId :: string
  req_versionId :: string
  req_tenantId :: string
  req_jobType :: string
  req_concurrencyLimit :: "rat option"

record ProcessingResponse =
  res_documentId :: string
  res_versionId :: string
  res_status :: ResponseStatus
  concurrencyStatus :: "ConcurrencyStatus option"
  reason :: "string option"

text \<open>\<open>error.message\<close> and \<open>error.name\<close> of a thrown value.\<close>

fun error_message :: "error \<Rightarrow> string" where
  "error_message (ConcurrencyLimitExceededError m _ _ _) = m"
| "error_message (NotFoundError resource) = resource @ '' not found''"
| "error_message (ForbiddenError m) = m"
| "error_message (ConflictError m) = m"
| "error_message (Error _ m) = m"

fun error_name :: "error \<Rightarrow> string" where
  "error_name (ConcurrencyLimitExceededError _ _ _ _) = ''ConcurrencyLimitExceededError''"
| "error_name (NotFoundError _) = ''NotFoundError''"
| "error_name (ForbiddenError _) = ''ForbiddenError''"
| "error_name (ConflictError _) = ''ConflictError''"
| "error_name (Error n _) = n"

text \<open>
  \<open>enforceAndStartProcessing\<close>. The \<open>try\<close> block acquires the slot and marks the job
  \<open>RUNNING\<close>; the \<open>catch\<close> block turns a \<open>ConcurrencyLimitExceededError\<close> into a \<open>QUEUED\<close>
  response after marking the job \<open>PENDING\<close>, and rethrows anything else.
\<close>

definition enforceAndStartProcessing_try ::
  "ProcessingRequest \<Rightarrow> int \<Rightarrow> world \<Rightarrow> (error + ProcessingResponse) \<times> world" where
  "enforceAndStartProcessing_try request now w =
     (case acquireConcurrencySlot (req_tenantId request) (req_concurrencyLimit request)
             (concurrency w) of
        (Inl e, tbl) \<Rightarrow> (Inl e, w\<lparr>concurrency := tbl\<rparr>)
      | (Inr cs, tbl) \<Rightarrow>
          (case query (UPDATE_job_running (req_documentId request) (req_versionId request)
                         (req_jobType request)) no_rows now (w\<lparr>concurrency := tbl\<rparr>) of
             (Inl e, w1) \<Rightarrow> (Inl e, w1)
           | (Inr _, w1) \<Rightarrow>
               (Inr \<lparr>res_documentId = req_documentId request,
                     res_versionId = req_versionId request, res_status = ACCEPTED,
                     concurrencyStatus = Some cs, reason = None\<rparr>, w1)))"

definition enforceAndStartProcessing ::
  "ProcessingRequest \<Rightarrow> int \<Rightarrow> world \<Rightarrow> (error + ProcessingResponse) \<times> world" where
  "enforceAndStartProcessing request now w =
     (case enforceAndStartProcessing_try request now w of
        (Inr response, w1) \<Rightarrow> (Inr response, w1)
      | (Inl (ConcurrencyLimitExceededError m t c l), w1) \<Rightarrow>
          (case query (UPDATE_job_pending (req_documentId request) (req_versionId request)
                         (req_jobType request)) no_rows now w1 of
             (Inl e, w2) \<Rightarrow> (Inl e, w2)
           | (Inr _, w2) \<Rightarrow>
               (Inr \<lparr>res_documentId = req_documentId request,
                     res_versionId = req_versionId request, res_status = QUEUED,
                     concurrencyStatus = None,
                     reason = Some (''Tenant concurrency limit reached ('' @ toString l
                                      @ ''). Task will retry.'')\<rparr>, w2))
      | (Inl e, w1) \<Rightarrow> (Inl e, w1))"

definition completeProcessing ::
  "string \<Rightarrow> string \<Rightarrow> string \<Rightarrow> string \<Rightarrow> bool \<Rightarrow> int \<Rightarrow> world \<Rightarrow> (error + unit) \<times> world" where
  "completeProcessing documentId versionId tenant jobType success now w =
     (case releaseConcurrencySlot tenant (concurrency w) of
        (Inl e, tbl) \<Rightarrow> (Inl e, w\<lparr>concurrency := tbl\<rparr>)
      | (Inr cs, tbl) \<Rightarrow>
          (let newStatus = (if success then COMPLETED else FAILED) in
           case query (UPDATE_job_completed newStatus documentId versionId jobType) no_rows now
                  (w\<lparr>concurrency := tbl\<rparr>) of
             (Inl e, w1) \<Rightarrow> (Inl e, w1)
           | (Inr _, w1) \<Rightarrow> (Inr (), w1)))"

definition handleProcessingFailure ::
  "string \<Rightarrow> string \<Rightarrow> string \<Rightarrow> string \<Rightarrow> error \<Rightarrow> int \<Rightarrow> world \<Rightarrow> (error + unit) \<times> world" where
  "handleProcessingFailure documentId versionId tenant jobType err now w =
     (case releaseConcurrencySlot tenant (concurrency w) of
        (Inl e, tbl) \<Rightarrow> (Inl e, w\<lparr>concurrency := tbl\<rparr>)
      | (Inr _, tbl) \<Rightarrow>
          (case query (UPDATE_job_failed (error_message err) documentId versionId jobType)
                  no_rows now (w\<lparr>concurrency := tbl\<rparr>) of
             (Inl e, w1) \<Rightarrow> (Inl e, w1)
           | (Inr _, w1) \<Rightarrow> (Inr (), w1)))"

text \<open>
  \<open>executeWithConcurrencyEnforcement\<close>. The operation is given by what it returns or
  throws. \<open>failure_path\<close> is the \<open>catch\<close> block around the operation and
  \<open>completeProcessing\<close>.
\<close>

definition failure_path ::
  "ProcessingRequest \<Rightarrow> error \<Rightarrow> int \<Rightarrow> world \<Rightarrow> (error + 'a) \<times> world" where
  "failure_path wrapper err now w =
     (case handleProcessingFailure (req_documentId wrapper) (req_versionId wrapper)
             (req_tenantId wrapper) (req_jobType wrapper) err now w of
        (Inl e, w1) \<Rightarrow> (Inl e, w1)
      | (Inr _, w1) \<Rightarrow> (Inl err, w1))"

definition executeWithConcurrencyEnforcement ::
  "ProcessingRequest \<Rightarrow> (error + 'a) \<Rightarrow> int \<Rightarrow> world \<Rightarrow> (error + 'a) \<times> world" where
  "executeWithConcurrencyEnforcement wrapper operation now w =
     (case enforceAndStartProcessing wrapper now w of
        (Inl e, w1) \<Rightarrow> (Inl e, w1)
      | (Inr response, w1) \<Rightarrow>
          if res_status response = QUEUED then
            (Inl (ConcurrencyLimitExceededError
                    (case reason response of None \<Rightarrow> ''Concurrency limit exceeded''
                     | Some r \<Rightarrow> if r = [] then ''Concurrency limit exceeded'' else r)
                    (req_tenantId wrapper)
                    (or_default (map_option currentCount (concurrencyStatus response)) 0)
                    (or_default (map_option limit (concurrencyStatus response)) 0)), w1)
          else
            (case operation of
               Inl err \<Rightarrow> failure_path wrapper err now w1
             | Inr result \<Rightarrow>
                 (case completeProcessing (req_documentId wrapper) (req_versionId wrapper)
                         (req_tenantId wrapper) (req_jobType wrapper) True now w1 of
                    (Inl err, w2) \<Rightarrow> failure_path wrapper err now w2
                  | (Inr _, w2) \<Rightarrow> (Inr result, w2))))"

section \<open>api/delete-document.ts\<close>

text \<open>
  The request is given by what \<open>validateToken\<close> returns or throws, the \<open>id\<close> path
  parameter and the client address. \<open>!documentId\<close> holds for a missing and for an empty
  parameter.

  \<open>query\<close> of \<open>shared/db.ts\<close> returns \<open>result.rows\<close> of the driver as they are: a row is an
  object whose properties are the columns of the \<open>SELECT\<close>, under the names of the columns.
  \<open>pg_row\<close> is that object for a stored document. \<open>mocked_row\<close> is the object that
  \<open>delete-document.test.ts\<close> makes \<open>queryOne\<close> return instead, with the property names of
  the \<open>Document\<close> interface.
\<close>

fun status_name :: "DocumentStatus \<Rightarrow> string" where
  "status_name UPLOADING = ''UPLOADING''"
| "status_name UPLOADED = ''UPLOADED''"
| "status_name PROCESSING = ''PROCESSING''"
| "status_name READY = ''READY''"
| "status_name FAILED_document = ''FAILED''"
| "status_name DELETED = ''DELETED''"
| "status_name DELETING = ''DELETING''"

definition date_or_null :: "int option \<Rightarrow> js_value" where
  "date_or_null d = (case d of None \<Rightarrow> JNull | Some t \<Rightarrow> JDate t)"

definition document_column :: "string \<Rightarrow> Document \<Rightarrow> js_value option" where
  "document_column c doc =
     (if c = ''id'' then Some (JString (doc_id doc))
      else if c = ''tenant_id'' then Some (JString (doc_tenantId doc))
      else if c = ''name'' then Some (JString (doc_name doc))
      else if c = ''owner_id'' then Some (JString (ownerId doc))
      else if c = ''status'' then Some (JString (status_name (doc_status doc)))
      else if c = ''legal_hold'' then Some (JBoolean (legalHold doc))
      else if c = ''deleted_at'' then Some (date_or_null (deletedAt doc))
      else None)"

definition pg_row :: "string list \<Rightarrow> Document \<Rightarrow> js_object" where
  "pg_row columns doc = (\<lambda>property. if property \<in> set columns then document_column property doc
                                     else None)"

text \<open>\<open>SELECT id, tenant_id, name, owner_id, status, legal_hold, deleted_at\<close>.\<close>

definition delete_document_columns :: "string list" where
  "delete_document_columns =
     [''id'', ''tenant_id'', ''name'', ''owner_id'', ''status'', ''legal_hold'', ''deleted_at'']"

definition mocked_row :: "Document \<Rightarrow> js_object" where
  "mocked_row doc =
     map_of [(''id'', JString (doc_id doc)), (''tenantId'', JString (doc_tenantId doc)),
             (''name'', JString (doc_name doc)), (''ownerId'', JString (ownerId doc)),
             (''status'', JString (status_name (doc_status doc))),
             (''legalHold'', JBoolean (legalHold doc)),
             (''deletedAt'', date_or_null (deletedAt doc))]"

text \<open>\<open>if (v)\<close> on a property, and \<open>JSON.stringify\<close> of an object literal (it drops the
  properties that are \<open>undefined\<close>).\<close>

definition js_truthy :: "js_value option \<Rightarrow> bool" where
  "js_truthy v =
     (case v of
        None \<Rightarrow> False
      | Some (JString t) \<Rightarrow> t \<noteq> []
      | Some (JBoolean b) \<Rightarrow> b
      | Some (JDate _) \<Rightarrow> True
      | Some JNull \<Rightarrow> False)"

definition JSON_stringify :: "(string \<times> js_value option) list \<Rightarrow> (string \<times> js_value) list" where
  "JSON_stringify ps = List.map_filter (\<lambda>(k, v). map_option (Pair k) v) ps"

record AuthContext =
  auth_userId :: string
  auth_tenantId :: string

record DeleteRequest =
  validateToken :: "error + AuthContext"
  pathParameter_id :: "string option"
  clientIp :: "string option"

datatype response_body =
    ErrorBody string string
  | SoftDeleted string int

record APIGatewayProxyResult =
  statusCode :: nat
  body :: response_body

text \<open>
  The \<open>try\<close> block of the handler. Its first argument says how a stored row reaches the
  handler from \<open>queryOne\<close>: \<open>pg_row delete_document_columns\<close> in the running code.
\<close>

definition delete_document_try ::
  "(Document \<Rightarrow> js_object) \<Rightarrow> DeleteRequest \<Rightarrow> int \<Rightarrow> world
     \<Rightarrow> (error + APIGatewayProxyResult) \<times> world" where
  "delete_document_try as_row event now w =
     (case validateToken event of
        Inl e \<Rightarrow> (Inl e, w)
      | Inr authContext \<Rightarrow>
          (case pathParameter_id event of
             None \<Rightarrow> (Inl (NotFoundError ''Document''), w)
           | Some documentId \<Rightarrow>
               if documentId = [] then (Inl (NotFoundError ''Document''), w)
               else
                 (case queryOne (SELECT_document documentId) document_rows now w of
                    (Inl e, w1) \<Rightarrow> (Inl e, w1)
                  | (Inr None, w1) \<Rightarrow> (Inl (NotFoundError ''Document''), w1)
                  | (Inr (Some stored), w1) \<Rightarrow>
                      (let document = as_row stored in
                       if document ''tenantId'' \<noteq> Some (JString (auth_tenantId authContext)) then
                         (Inl (ForbiddenError ''Cannot delete document from different tenant''), w1)
                       else if js_truthy (document ''legalHold'') then
                         (Inl (ConflictError ''Cannot delete document with active legal hold''), w1)
                       else if document ''status'' = Some (JString ''DELETED'')
                               \<or> document ''status'' = Some (JString ''DELETING'') then
                         (Inl (ConflictError ''Document is already deleted or being deleted''), w1)
                       else
                         (case query (UPDATE_document_deleted DELETED now documentId) no_rows
                                 now w1 of
                            (Inl e, w2) \<Rightarrow> (Inl e, w2)
                          | (Inr _, w2) \<Rightarrow>
                              (Inr \<lparr>statusCode = 200, body = SoftDeleted documentId now\<rparr>,
                               createAuditLog
                                 \<lparr>log_tenantId = auth_tenantId authContext,
                                  log_userId = Some (auth_userId authContext),
                                  log_action = ''DELETE'',
                                  log_documentId = Some documentId,
                                  log_ipAddress = clientIp event,
                                  log_metadata =
                                    JSON_stringify
                                      [(''documentName'', document ''name''),
                                       (''previousStatus'', document ''status'')]\<rparr>
                                 now w2))))))"

text \<open>
  The \<open>catch\<close> block of the handler: an \<open>AppError\<close> becomes a response with its status
  code, code and message; anything else becomes the 500 response.
\<close>

fun error_response :: "error \<Rightarrow> APIGatewayProxyResult" where
  "error_response (NotFoundError resource) =
     \<lparr>statusCode = 404, body = ErrorBody ''NOT_FOUND'' (resource @ '' not found'')\<rparr>"
| "error_response (ForbiddenError m) = \<lparr>statusCode = 403, body = ErrorBody ''FORBIDDEN'' m\<rparr>"
| "error_response (ConflictError m) = \<lparr>statusCode = 409, body = ErrorBody ''CONFLICT'' m\<rparr>"
| "error_response _ =
     \<lparr>statusCode = 500, body = ErrorBody ''INTERNAL_SERVER_ERROR'' ''Internal server error''\<rparr>"

definition handler_with ::
  "(Document \<Rightarrow> js_object) \<Rightarrow> DeleteRequest \<Rightarrow> int \<Rightarrow> world
     \<Rightarrow> APIGatewayProxyResult \<times> world" where
  "handler_with as_row event now w =
     (case delete_document_try as_row event now w of
        (Inl e, w1) \<Rightarrow> (error_response e, w1)
      | (Inr r, w1) \<Rightarrow> (r, w1))"

text \<open>The handler as it runs, on the rows of the driver.\<close>

definition delete_document_handler ::
  "DeleteRequest \<Rightarrow> int \<Rightarrow> world \<Rightarrow> APIGatewayProxyResult \<times> world" where
  "delete_document_handler event now w =
     handler_with (pg_row delete_document_columns) event now w"

section \<open>workers/retention-enforcement.ts\<close>

text \<open>
  The retention handler selects the expired documents and marks each \<open>DELETING\<close>; a
  failure of one update is logged and the loop goes on. The comparison
  \<open>NOW() - deleted_at > (retention_days || ' days')::INTERVAL\<close> is a comparison of
  durations, a day being 24 hours. Of a selected row the handler uses \<open>doc.id\<close>, the
  column \<open>id\<close>, for the update; the other properties it reads are only logged. The
  handler has no queue client: the hard-delete queue is not within its reach.
\<close>

fun mark_for_hard_delete :: "Document list \<Rightarrow> int \<Rightarrow> world \<Rightarrow> world" where
  "mark_for_hard_delete [] now w = w"
| "mark_for_hard_delete (doc # docs) now w =
     mark_for_hard_delete docs now
       (snd (query (UPDATE_document_status DELETING (doc_id doc)) no_rows now w))"

definition retention_enforcement_handler :: "int \<Rightarrow> world \<Rightarrow> (error + unit) \<times> world" where
  "retention_enforcement_handler now w =
     (case query (SELECT_expired_documents DELETED) document_rows now w of
        (Inl e, w1) \<Rightarrow> (Inl e, w1)
      | (Inr expiredDocuments, w1) \<Rightarrow>
          if length expiredDocuments = 0 then (Inr (), w1)
          else (Inr (), mark_for_hard_delete expiredDocuments now w1))"

section \<open>workers/hard-delete-worker.ts\<close>

text \<open>
  The object store. A listing returns the keys under the prefix in ascending order,
  \<open>max_keys\<close> at a time, starting after the continuation token, and a token (the last key
  of the page) when keys remain. A batch delete removes the keys it is given; the per-key
  errors that the service reports inside a successful response, and that the code does not
  read, are not modelled. Either request can fail as scripted by \<open>s3_faults\<close>.
\<close>

definition after_token :: "string option \<Rightarrow> string \<Rightarrow> bool" where
  "after_token token k = (case token of None \<Rightarrow> True | Some t \<Rightarrow> t < k)"

definition ListObjectsV2 ::
  "string \<Rightarrow> string option \<Rightarrow> world \<Rightarrow> (error + string list \<times> string option) \<times> world" where
  "ListObjectsV2 pfx token w =
     (case s3_faults w of
        True # fs \<Rightarrow>
          (Inl (Error ''ServiceUnavailable'' ''request failed''), w\<lparr>s3_faults := fs\<rparr>)
      | _ \<Rightarrow>
          (let matching = sort (filter (\<lambda>k. prefix pfx k \<and> after_token token k) (objects w));
               page = take (max_keys w) matching
           in (Inr (page, if page \<noteq> [] \<and> length page < length matching
                          then Some (last page) else None),
               w\<lparr>s3_faults := tl (s3_faults w)\<rparr>)))"

definition DeleteObjects :: "string list \<Rightarrow> world \<Rightarrow> (error + unit) \<times> world" where
  "DeleteObjects keys w =
     (case s3_faults w of
        True # fs \<Rightarrow>
          (Inl (Error ''ServiceUnavailable'' ''request failed''), w\<lparr>s3_faults := fs\<rparr>)
      | _ \<Rightarrow> (Inr (), w\<lparr>objects := filter (\<lambda>k. k \<notin> set keys) (objects w),
                         s3_faults := tl (s3_faults w)\<rparr>))"

text \<open>
  One round of the \<open>do \<dots> while\<close> loop of \<open>deleteObjectsWithPrefix\<close>: list a page, delete
  its keys when there are any, and return the number deleted with the next token.
\<close>

definition delete_page ::
  "string \<Rightarrow> string option \<Rightarrow> world \<Rightarrow> (error + nat \<times> string option) \<times> world" where
  "delete_page pfx continuationToken w =
     (case ListObjectsV2 pfx continuationToken w of
        (Inl e, w1) \<Rightarrow> (Inl e, w1)
      | (Inr (contents, next), w1) \<Rightarrow>
          if length contents > 0 then
            (case DeleteObjects contents w1 of
               (Inl e, w2) \<Rightarrow> (Inl e, w2)
             | (Inr _, w2) \<Rightarrow> (Inr (length contents, next), w2))
          else (Inr (0, next), w1))"

text \<open>\<open>while (continuationToken)\<close>: \<open>undefined\<close> and the empty string are falsy.\<close>

definition truthy :: "string option \<Rightarrow> bool" where
  "truthy token = (case token of None \<Rightarrow> False | Some t \<Rightarrow> t \<noteq> [])"

lemma delete_page_decreases:
  assumes "delete_page pfx tok w = (Inr (n, next), w')" and "truthy next"
  shows "length (objects w') < length (objects w)"
proof -
  let ?m = "sort (filter (\<lambda>k. prefix pfx k \<and> after_token tok k) (objects w))"
  let ?p = "take (max_keys w) ?m"
  from assms have ne: "?p \<noteq> []"
    by (auto simp: delete_page_def ListObjectsV2_def DeleteObjects_def Let_def truthy_def
        split: list.splits bool.splits if_splits prod.splits sum.splits)
  from assms ne have obj: "objects w' = filter (\<lambda>k. k \<notin> set ?p) (objects w)"
    by (auto simp: delete_page_def ListObjectsV2_def DeleteObjects_def Let_def truthy_def
        split: list.splits bool.splits if_splits prod.splits sum.splits)
  from ne have "hd ?p \<in> set ?p" by (rule hd_in_set)
  moreover have "set ?p \<subseteq> set ?m" by (rule set_take_subset)
  ultimately have "hd ?p \<in> set ?m" by blast
  then have "hd ?p \<in> set (objects w)" by simp
  with \<open>hd ?p \<in> set ?p\<close>
  have "length (filter (\<lambda>k. k \<notin> set ?p) (objects w)) < length (objects w)"
    by (intro length_filter_less[of "hd ?p"]) auto
  with obj show ?thesis by simp
qed

function deleteObjectsWithPrefix_from ::
  "string \<Rightarrow> string option \<Rightarrow> nat \<Rightarrow> world \<Rightarrow> (error + nat) \<times> world" where
  "deleteObjectsWithPrefix_from pfx continuationToken totalDeleted w =
     (case delete_page pfx continuationToken w of
        (Inl e, w1) \<Rightarrow> (Inl e, w1)
      | (Inr (n, next), w1) \<Rightarrow>
          if truthy next then deleteObjectsWithPrefix_from pfx next (totalDeleted + n) w1
          else (Inr (totalDeleted + n), w1))"
  by pat_completeness auto
termination
  by (relation "measure (\<lambda>(pfx, tok, n, w). length (objects w))")
     (auto dest: delete_page_decreases[OF sym])

declare deleteObjectsWithPrefix_from.simps [simp del]

definition deleteObjectsWithPrefix :: "string \<Rightarrow> world \<Rightarrow> (error + nat) \<times> world" where
  "deleteObjectsWithPrefix pfx w = deleteObjectsWithPrefix_from pfx None 0 w"

definition document_prefix :: "string \<Rightarrow> string \<Rightarrow> string" where
  "document_prefix tenant documentId = tenant @ ''/documents/'' @ documentId @ ''/''"

definition derived_prefix :: "string \<Rightarrow> string \<Rightarrow> string" where
  "derived_prefix tenant documentId = tenant @ ''/derived/'' @ documentId @ ''/''"

definition deleteS3Objects :: "string \<Rightarrow> string \<Rightarrow> world \<Rightarrow> (error + unit) \<times> world" where
  "deleteS3Objects tenant documentId w =
     (case deleteObjectsWithPrefix (document_prefix tenant documentId) w of
        (Inl e, w1) \<Rightarrow> (Inl e, w1)
      | (Inr _, w1) \<Rightarrow>
          (case deleteObjectsWithPrefix (derived_prefix tenant documentId) w1 of
             (Inl e, w2) \<Rightarrow> (Inl e, w2)
           | (Inr _, w2) \<Rightarrow> (Inr (), w2)))"

text \<open>The callback of the transaction: three deletes, stopping at the first that throws.\<close>

definition delete_rows :: "string \<Rightarrow> int \<Rightarrow> world \<Rightarrow> (error + unit) \<times> world" where
  "delete_rows documentId now w =
     (case query (DELETE_processing_jobs documentId) no_rows now w of
        (Inl e, w1) \<Rightarrow> (Inl e, w1)
      | (Inr _, w1) \<Rightarrow>
          (case query (DELETE_document_versions documentId) no_rows now w1 of
             (Inl e, w2) \<Rightarrow> (Inl e, w2)
           | (Inr _, w2) \<Rightarrow>
               (case query (DELETE_document documentId) no_rows now w2 of
                  (Inl e, w3) \<Rightarrow> (Inl e, w3)
                | (Inr _, w3) \<Rightarrow> (Inr (), w3))))"

text \<open>
  \<open>processMessage\<close>, on the parsed message. Every error is logged and rethrown. Of the
  selected row the worker reads \<open>document.status\<close>, the column \<open>status\<close>.
\<close>

definition processMessage :: "HardDeleteMessage \<Rightarrow> int \<Rightarrow> world \<Rightarrow> (error + unit) \<times> world" where
  "processMessage message now w =
     (case queryOne (SELECT_document_of_tenant (msg_documentId message) (msg_tenantId message))
             document_rows now w of
        (Inl e, w1) \<Rightarrow> (Inl e, w1)
      | (Inr None, w1) \<Rightarrow> (Inr (), w1)
      | (Inr (Some document), w1) \<Rightarrow>
          if doc_status document \<noteq> DELETING then (Inr (), w1)
          else
            (case query (SELECT_document_versions (msg_documentId message)) version_rows now w1 of
               (Inl e, w2) \<Rightarrow> (Inl e, w2)
             | (Inr versions, w2) \<Rightarrow>
                 (case deleteS3Objects (msg_tenantId message) (msg_documentId message) w2 of
                    (Inl e, w3) \<Rightarrow> (Inl e, w3)
                  | (Inr _, w3) \<Rightarrow>
                      withTransaction (delete_rows (msg_documentId message)) now w3)))"

section \<open>shared/retry.ts\<close>

text \<open>
  Delays are JavaScript numbers and \<open>Math.pow(2, attempt - 1)\<close> is a fraction when
  \<open>attempt < 1\<close>; they are rationals. \<open>if (maxDelayMs)\<close> is false for \<open>undefined\<close> and 0.
\<close>

record RetryConfig =
  maxAttempts :: int
  baseDelayMs :: rat
  maxDelayMs :: "rat option"
  retryableErrors :: "string list option"

record PartialRetryConfig =
  given_maxAttempts :: "int option"
  given_baseDelayMs :: "rat option"
  given_maxDelayMs :: "rat option"
  given_retryableErrors :: "string list option"

definition DEFAULT_RETRY_CONFIG :: RetryConfig where
  "DEFAULT_RETRY_CONFIG =
     \<lparr>maxAttempts = 5, baseDelayMs = 1000, maxDelayMs = Some 16000,
      retryableErrors = Some [''NetworkError'', ''TimeoutError'', ''ServiceUnavailable'',
        ''ThrottlingException'', ''TooManyRequestsException'', ''InternalServerError'']\<rparr>"

text \<open>\<open>{...DEFAULT_RETRY_CONFIG, ...config}\<close>: a key of \<open>config\<close> replaces the default.\<close>

definition finalConfig :: "PartialRetryConfig \<Rightarrow> RetryConfig" where
  "finalConfig config =
     \<lparr>maxAttempts = (case given_maxAttempts config of None \<Rightarrow> maxAttempts DEFAULT_RETRY_CONFIG
                      | Some m \<Rightarrow> m),
      baseDelayMs = (case given_baseDelayMs config of None \<Rightarrow> baseDelayMs DEFAULT_RETRY_CONFIG
                     | Some b \<Rightarrow> b),
      maxDelayMs = (case given_maxDelayMs config of None \<Rightarrow> maxDelayMs DEFAULT_RETRY_CONFIG
                    | Some m \<Rightarrow> Some m),
      retryableErrors = (case given_retryableErrors config of
                           None \<Rightarrow> retryableErrors DEFAULT_RETRY_CONFIG
                         | Some es \<Rightarrow> Some es)\<rparr>"

definition calculateExponentialBackoff :: "int \<Rightarrow> rat \<Rightarrow> rat option \<Rightarrow> rat" where
  "calculateExponentialBackoff attempt base maxDelay =
     (let delay = base * (2 powi (attempt - 1)) in
      case maxDelay of
        None \<Rightarrow> delay
      | Some m \<Rightarrow> if m \<noteq> 0 then min delay m else delay)"

text \<open>\<open>String.prototype.includes\<close> is the contiguous-sublist test.\<close>

definition isRetryableError :: "error \<Rightarrow> string list option \<Rightarrow> bool" where
  "isRetryableError err retryable =
     (let errors = (case retryable of None \<Rightarrow> the (retryableErrors DEFAULT_RETRY_CONFIG)
                    | Some es \<Rightarrow> es)
      in list_ex (\<lambda>errorType. sublist errorType (error_name err)
                              \<or> sublist errorType (error_message err)) errors)"

text \<open>
  \<open>retryWithExponentialBackoff\<close>. The operation is given by the outcome of each of its
  invocations, numbered from 1 (the loop invokes it once per attempt). The result carries
  the number of invocations made and the delays slept, in order.
\<close>

record 'a retry_result =
  outcome :: "error + 'a"
  invocations :: nat
  slept :: "rat list"

function retry_from ::
  "RetryConfig \<Rightarrow> (int \<Rightarrow> error + 'a) \<Rightarrow> int \<Rightarrow> error option \<Rightarrow> nat \<Rightarrow> rat list
     \<Rightarrow> 'a retry_result" where
  "retry_from cfg operation attempt lastError calls delays =
     (if attempt \<le> maxAttempts cfg then
        (case operation attempt of
           Inr result \<Rightarrow> \<lparr>outcome = Inr result, invocations = calls + 1, slept = delays\<rparr>
         | Inl err \<Rightarrow>
             (let isRetryable = isRetryableError err (retryableErrors cfg);
                  isLastAttempt = (attempt = maxAttempts cfg)
              in if isLastAttempt \<or> \<not> isRetryable then
                   \<lparr>outcome = Inl err, invocations = calls + 1, slept = delays\<rparr>
                 else
                   retry_from cfg operation (attempt + 1) (Some err) (calls + 1)
                     (delays @ [calculateExponentialBackoff attempt (baseDelayMs cfg)
                                  (maxDelayMs cfg)])))
      else
        \<lparr>outcome = Inl (case lastError of None \<Rightarrow> Error ''Error'' ''Retry failed with unknown error''
                         | Some err \<Rightarrow> err),
         invocations = calls, slept = delays\<rparr>)"
  by pat_completeness auto
termination
  by (relation "measure (\<lambda>(cfg, operation, attempt, lastError, calls, delays).
                           nat (maxAttempts cfg + 1 - attempt))") auto

declare retry_from.simps [simp del]

definition retryWithExponentialBackoff ::
  "(int \<Rightarrow> error + 'a) \<Rightarrow> PartialRetryConfig \<Rightarrow> 'a retry_result" where
  "retryWithExponentialBackoff operation config =
     retry_from (finalConfig config) operation 1 None 0 []"

text \<open>The configuration that overrides nothing: \<open>{}\<close>.\<close>

definition no_overrides :: PartialRetryConfig where
  "no_overrides =
     \<lparr>given_maxAttempts = None, given_baseDelayMs = None, given_maxDelayMs = None,
      given_retryableErrors = None\<rparr>"

section \<open>shared/task-routing.ts\<close>

text \<open>
  File sizes and page counts are integers; the estimate is a rational
  (\<open>fileSizeBytes / (1024 * 1024)\<close> is a fraction). \<open>Math.round\<close> rounds half up.
  \<open>jobType\<close> has type \<open>JobType\<close>, so the \<open>default\<close> branch of the \<open>switch\<close> has no value
  that reaches it.
\<close>

datatype WorkerType = LAMBDA | FARGATE

record TaskMetadata =
  jobType :: JobType
  fileSizeBytes :: "int option"
  pageCount :: "int option"

record TaskRoutingDecision =
  workerType :: WorkerType
  estimatedDurationMs :: rat
  routing_reason :: string

definition LAMBDA_TIMEOUT_MS :: rat where
  "LAMBDA_TIMEOUT_MS = 15 * 60 * 1000"

definition THUMBNAIL_TIME_PER_MB :: rat where "THUMBNAIL_TIME_PER_MB = 2000"
definition OCR_TIME_PER_PAGE :: rat where "OCR_TIME_PER_PAGE = 5000"
definition PDF_SPLIT_TIME_PER_PAGE :: rat where "PDF_SPLIT_TIME_PER_PAGE = 1000"
definition MALWARE_SCAN_TIME_PER_MB :: rat where "MALWARE_SCAN_TIME_PER_MB = 3000"

definition LARGE_FILE_THRESHOLD_BYTES :: int where
  "LARGE_FILE_THRESHOLD_BYTES = 50 * 1024 * 1024"

definition LARGE_PAGE_COUNT_THRESHOLD :: int where
  "LARGE_PAGE_COUNT_THRESHOLD = 100"

definition default_zero :: "int option \<Rightarrow> int" where
  "default_zero v = (case v of None \<Rightarrow> 0 | Some n \<Rightarrow> n)"

definition Math_round :: "rat \<Rightarrow> int" where
  "Math_round x = \<lfloor>x + 1 / 2\<rfloor>"

definition estimateTaskDuration :: "TaskMetadata \<Rightarrow> rat" where
  "estimateTaskDuration metadata =
     (let bytes = default_zero (fileSizeBytes metadata);
          pages = default_zero (pageCount metadata)
      in case jobType metadata of
           THUMBNAIL \<Rightarrow> max 5000 (of_int bytes / (1024 * 1024) * THUMBNAIL_TIME_PER_MB)
         | OCR \<Rightarrow> max 10000 (of_int pages * OCR_TIME_PER_PAGE)
         | PDF_SPLIT \<Rightarrow> max 5000 (of_int pages * PDF_SPLIT_TIME_PER_PAGE)
         | MALWARE_SCAN \<Rightarrow> max 10000 (of_int bytes / (1024 * 1024) * MALWARE_SCAN_TIME_PER_MB))"

text \<open>The four rules of \<open>routeTask\<close>, each a step on the pair of worker type and reason.\<close>

definition rule1 :: "rat \<Rightarrow> WorkerType \<times> string" where
  "rule1 est =
     (if est < LAMBDA_TIMEOUT_MS then
        (LAMBDA, ''Estimated duration '' @ toString (Math_round (est / 1000))
                   @ ''s is under Lambda timeout'')
      else
        (FARGATE, ''Estimated duration '' @ toString (Math_round (est / 1000))
                    @ ''s exceeds Lambda timeout''))"

definition rule2 :: "int \<Rightarrow> WorkerType \<times> string \<Rightarrow> WorkerType \<times> string" where
  "rule2 bytes d =
     (if bytes > LARGE_FILE_THRESHOLD_BYTES then
        (FARGATE, ''Large file size '' @ toString (Math_round (of_int bytes / (1024 * 1024)))
                    @ ''MB requires Fargate'')
      else d)"

definition rule3 :: "int \<Rightarrow> WorkerType \<times> string \<Rightarrow> WorkerType \<times> string" where
  "rule3 pages d =
     (if pages > LARGE_PAGE_COUNT_THRESHOLD then
        (FARGATE, ''Large page count '' @ toString pages @ '' requires Fargate'')
      else d)"

definition rule4 :: "JobType \<Rightarrow> WorkerType \<times> string \<Rightarrow> WorkerType \<times> string" where
  "rule4 jt d =
     (if jt = MALWARE_SCAN then
        (FARGATE, ''Malware scanning requires Fargate with ClamAV container'')
      else d)"

definition routeTask :: "TaskMetadata \<Rightarrow> TaskRoutingDecision" where
  "routeTask metadata =
     (let est = estimateTaskDuration metadata;
          bytes = default_zero (fileSizeBytes metadata);
          pages = default_zero (pageCount metadata);
          d = rule4 (jobType metadata) (rule3 pages (rule2 bytes (rule1 est)))
      in \<lparr>workerType = fst d, estimatedDurationMs = est, routing_reason = snd d\<rparr>)"

section \<open>Derived notions and example data\<close>

text \<open>The number of slots a tenant holds, as \<open>getCurrentConcurrency\<close> reads it.\<close>

definition slots_held :: "string \<Rightarrow> world \<Rightarrow> int" where
  "slots_held tenant w = currentCount (getCurrentConcurrency tenant (concurrency w))"

text \<open>
  The selection of the retention sweep in the words of the specification: soft-deleted,
  \<open>deletedAt\<close> set, no legal hold, and deleted more than \<open>retentionDays\<close> days ago.
\<close>

definition retention_expired :: "int \<Rightarrow> Document \<Rightarrow> bool" where
  "retention_expired now doc \<longleftrightarrow>
     doc_status doc = DELETED \<and> deletedAt doc \<noteq> None \<and> \<not> legalHold doc \<and>
     now - the (deletedAt doc) > retentionDays doc * DAY_MS"

definition promote :: "int \<Rightarrow> Document \<Rightarrow> Document" where
  "promote now doc = doc\<lparr>doc_status := DELETING, updatedAt := now\<rparr>"

definition empty_world :: world where
  "empty_world =
     \<lparr>concurrency = Map.empty, documents = [], document_versions = [], processing_jobs = [],
      audit_logs = [], executed = [], db_faults = [], objects = [], max_keys = 1000,
      s3_faults = [], hard_delete_queue = []\<rparr>"

definition example_job :: ProcessingJob where
  "example_job =
     \<lparr>job_id = ''j1'', job_documentId = ''d1'', job_versionId = ''v1'', job_jobType = ''OCR'',
      job_status = PENDING, attempts = 0, errorMessage = None, startedAt = None,
      completedAt = None\<rparr>"

definition example_request :: ProcessingRequest where
  "example_request =
     \<lparr>req_documentId = ''d1'', req_versionId = ''v1'', req_tenantId = ''t1'',
      req_jobType = ''OCR'', req_concurrencyLimit = Some 1\<rparr>"

text \<open>
  Example documents of tenant \<open>t1\<close>, with a 30-day retention policy; the examples run at
  day 100. \<open>doc_held\<close> is ready and under legal hold, \<open>doc_ready\<close> is ready, \<open>doc_recent\<close>
  was soft-deleted 15 days ago and \<open>doc_old\<close> 31 days ago.
\<close>

definition example_document :: "string \<Rightarrow> DocumentStatus \<Rightarrow> bool \<Rightarrow> int option \<Rightarrow> Document" where
  "example_document i st hold deleted =
     \<lparr>doc_id = i, doc_tenantId = ''t1'', doc_name = ''a.pdf'', ownerId = ''u1'',
      doc_status = st, legalHold = hold, deletedAt = deleted, retentionDays = 30,
      createdAt = 0, updatedAt = 0\<rparr>"

definition doc_held :: Document where
  "doc_held = example_document ''d1'' READY True None"

definition doc_ready :: Document where
  "doc_ready = example_document ''d2'' READY False None"

definition doc_recent :: Document where
  "doc_recent = example_document ''d3'' DELETED False (Some (85 * DAY_MS))"

definition doc_old :: Document where
  "doc_old = example_document ''d4'' DELETED False (Some (69 * DAY_MS))"

definition example_delete_request :: "string \<Rightarrow> DeleteRequest" where
  "example_delete_request i =
     \<lparr>validateToken = Inr \<lparr>auth_userId = ''u1'', auth_tenantId = ''t1''\<rparr>,
      pathParameter_id = Some i, clientIp = None\<rparr>"

text \<open>The page a listing returns, and equality of the four tables of two worlds.\<close>

definition next_page :: "string \<Rightarrow> string option \<Rightarrow> world \<Rightarrow> string list" where
  "next_page pfx tok w =
     take (max_keys w) (sort (filter (\<lambda>k. prefix pfx k \<and> after_token tok k) (objects w)))"

definition same_rows :: "world \<Rightarrow> world \<Rightarrow> bool" where
  "same_rows w w' \<longleftrightarrow>
     documents w' = documents w \<and> document_versions w' = document_versions w \<and>
     processing_jobs w' = processing_jobs w \<and> audit_logs w' = audit_logs w"

text \<open>
  A world for the hard-delete worker: \<open>doc_deleting\<close> is in status \<open>DELETING\<close>, with one
  version, one job, one audit record and three objects; listings return one key per page.
\<close>

definition doc_deleting :: Document where
  "doc_deleting = example_document ''d5'' DELETING False (Some (69 * DAY_MS))"

definition hard_delete_world :: world where
  "hard_delete_world =
     empty_world
       \<lparr>documents := [doc_ready, doc_deleting],
        document_versions :=
          [\<lparr>ver_id = ''v1'', ver_documentId = ''d5'', versionNumber = 1,
            s3Key = ''t1/documents/d5/v1/original'', s3Bucket = ''bucket''\<rparr>],
        processing_jobs := [example_job\<lparr>job_documentId := ''d5''\<rparr>],
        audit_logs :=
          [\<lparr>log_tenantId = ''t1'', log_userId = Some ''u1'', log_action = ''DELETE'',
            log_documentId = Some ''d5'', log_ipAddress = None, log_metadata = []\<rparr>],
        objects := [''t1/documents/d5/v1/original'', ''t1/derived/d5/v1/thumb'',
                    ''t1/documents/d5/v2/original'', ''t1/documents/d2/v1/original''],
        max_keys := 1\<rparr>"

definition hard_delete_message :: "string \<Rightarrow> HardDeleteMessage" where
  "hard_delete_message d = \<lparr>msg_documentId = d, msg_tenantId = ''t1''\<rparr>"

section \<open>Properties of the per-tenant counter\<close>

lemmas slot_defs =
  slot_step_def acquireConcurrencySlot_def incrementConcurrency_def
  releaseConcurrencySlot_def decrementConcurrency_def getCurrentConcurrency_def Let_def

lemma parseInt_of_int [simp]: "parseInt (of_int L) = L"
  by (simp add: parseInt_def)

lemma parseInt_numeral [simp]: "parseInt (numeral k) = numeral k"
  by (simp add: parseInt_def)

lemma below_integer_limit:
  "l \<in> \<int> \<Longrightarrow> of_int c < l \<Longrightarrow> of_int (c + 1) \<le> (l :: rat)"
  by (erule Ints_cases) simp

lemma slot_step_in_range:
  assumes "slot_in_range (tbl tenant)" and "integer_limit (tbl tenant)"
    and "requested_limit c \<in> \<int>" and "1 \<le> requested_limit c"
  shows "slot_in_range (slot_step tenant c tbl tenant)
         \<and> integer_limit (slot_step tenant c tbl tenant)"
proof (cases c)
  case (Acquire l)
  with assms show ?thesis
    using below_integer_limit
    by (auto simp: slot_in_range_def integer_limit_def slot_defs split: option.splits)
next
  case Release
  with assms show ?thesis
    by (auto simp: slot_in_range_def integer_limit_def slot_defs split: option.splits)
qed

lemma slot_step_limit:
  "tbl tenant = Some it \<Longrightarrow>
   map_option concurrency_limit (slot_step tenant c tbl tenant) = Some (concurrency_limit it)"
  by (cases c) (auto simp: slot_defs split: option.splits)

lemma slot_run_in_range:
  "slot_in_range (tbl tenant) \<Longrightarrow> integer_limit (tbl tenant)
     \<Longrightarrow> \<forall>c \<in> set cs. requested_limit c \<in> \<int> \<and> 1 \<le> requested_limit c
     \<Longrightarrow> slot_in_range (slot_run tenant cs tbl tenant)"
proof (induction cs arbitrary: tbl)
  case Nil
  then show ?case by simp
next
  case (Cons c cs)
  from Cons.prems have "slot_in_range (slot_step tenant c tbl tenant)
      \<and> integer_limit (slot_step tenant c tbl tenant)"
    by (intro slot_step_in_range) auto
  with Cons.IH[of "slot_step tenant c tbl"] Cons.prems(3) show ?case by simp
qed

lemma slot_run_limit:
  "tbl tenant = Some it \<Longrightarrow>
   map_option concurrency_limit (slot_run tenant cs tbl tenant) = Some (concurrency_limit it)"
proof (induction cs arbitrary: tbl it)
  case Nil
  then show ?case by simp
next
  case (Cons c cs)
  from slot_step_limit[of tbl tenant it c] Cons.prems
  obtain it' where "slot_step tenant c tbl tenant = Some it'"
    and "concurrency_limit it' = concurrency_limit it"
    by auto
  with Cons.IH[of "slot_step tenant c tbl" it'] show ?case by simp
qed

lemma acquire_denied:
  "tbl tenant = Some it \<Longrightarrow> \<not> of_int (current_count it) < concurrency_limit it \<Longrightarrow>
   acquireConcurrencySlot tenant l tbl =
     (Inl (ConcurrencyLimitExceededError
            (''Tenant '' @ tenant @ '' has reached concurrency limit of ''
               @ toString (parseInt (concurrency_limit it)))
            tenant (current_count it) (parseInt (concurrency_limit it))), tbl)"
  by (simp add: slot_defs)

lemma release_at_zero_is_noop:
  "(case tbl tenant of None \<Rightarrow> True | Some it \<Rightarrow> current_count it \<le> 0) \<Longrightarrow>
   releaseConcurrencySlot tenant tbl =
     (Inr \<lparr>tenantId = tenant, currentCount = 0, limit = DEFAULT_CONCURRENCY_LIMIT,
           available = DEFAULT_CONCURRENCY_LIMIT\<rparr>, tbl)"
  by (auto simp: slot_defs split: option.splits)

text \<open>
  C1, as stated, fails for a limit that is not an integer of at least 1; the limit is a
  number that nothing validates. The first acquire of a tenant always succeeds (the
  condition \<open>attribute_not_exists(current_count)\<close> holds), so a first acquire that asks for
  the limit \<open>-1\<close> stores the count 1 beside the limit \<open>-1\<close>. And with the limit \<open>2.5\<close> the
  count 2 is below the limit, so a third acquire succeeds and the count is 3.
\<close>

theorem unvalidated_limit_counterexample:
  "slot_run ''t'' [Acquire (Some (- 1))] Map.empty ''t''
     = Some \<lparr>current_count = 1, concurrency_limit = - 1\<rparr> \<and>
   \<not> slot_in_range (slot_run ''t'' [Acquire (Some (- 1))] Map.empty ''t'') \<and>
   slot_run ''t'' [Acquire (Some (5 / 2)), Acquire (Some (5 / 2)), Acquire (Some (5 / 2))]
       Map.empty ''t''
     = Some \<lparr>current_count = 3, concurrency_limit = 5 / 2\<rparr> \<and>
   \<not> slot_in_range
       (slot_run ''t'' [Acquire (Some (5 / 2)), Acquire (Some (5 / 2)), Acquire (Some (5 / 2))]
          Map.empty ''t'')"
  by (simp add: slot_defs or_default_def slot_in_range_def DEFAULT_CONCURRENCY_LIMIT_def)

text \<open>
  C1 (amended): for every sequence of acquire and release calls for one tenant in which
  every acquire asks for a limit that is an integer of at least 1 (or for none, or for 0,
  which both mean the default of 10), starting from a counter that is absent or within its
  stored integer limit, the counter is within \<open>[0, L]\<close> of its stored limit \<open>L\<close> after
  every call, and the stored limit never changes. An acquire on a counter whose count is
  not strictly less than its integer limit \<open>L\<close> fails with
  \<open>ConcurrencyLimitExceededError\<close> carrying the count and \<open>L\<close> and leaves the table
  unchanged; and no acquire succeeds when the count equals the limit.
\<close>

theorem slot_count_within_limit:
  assumes "slot_in_range (tbl tenant)" and "integer_limit (tbl tenant)"
    and "\<forall>c \<in> set cs. requested_limit c \<in> \<int> \<and> 1 \<le> requested_limit c"
  shows "(\<forall>n. slot_in_range (slot_run tenant (take n cs) tbl tenant)) \<and>
         (\<forall>it n. tbl tenant = Some it \<longrightarrow>
            map_option concurrency_limit (slot_run tenant (take n cs) tbl tenant)
              = Some (concurrency_limit it)) \<and>
         (\<forall>s it l L. s tenant = Some it \<and> concurrency_limit it = of_int L
                     \<and> \<not> current_count it < L \<longrightarrow>
            acquireConcurrencySlot tenant l s =
              (Inl (ConcurrencyLimitExceededError
                     (''Tenant '' @ tenant @ '' has reached concurrency limit of ''
                        @ toString L)
                     tenant (current_count it) L), s)) \<and>
         (\<forall>s it l. s tenant = Some it \<and> of_int (current_count it) = concurrency_limit it \<longrightarrow>
            isl (fst (acquireConcurrencySlot tenant l s)))"
proof (intro conjI allI impI)
  fix n
  have "\<forall>c \<in> set (take n cs). requested_limit c \<in> \<int> \<and> 1 \<le> requested_limit c"
    using assms(3) by (meson in_set_takeD)
  with assms(1,2) show "slot_in_range (slot_run tenant (take n cs) tbl tenant)"
    by (rule slot_run_in_range)
next
  fix it n
  assume "tbl tenant = Some it"
  then show "map_option concurrency_limit (slot_run tenant (take n cs) tbl tenant)
               = Some (concurrency_limit it)"
    by (rule slot_run_limit)
next
  fix s :: concurrency_table and it l L
  assume "s tenant = Some it \<and> concurrency_limit it = of_int L \<and> \<not> current_count it < L"
  then show "acquireConcurrencySlot tenant l s =
               (Inl (ConcurrencyLimitExceededError
                      (''Tenant '' @ tenant @ '' has reached concurrency limit of ''
                         @ toString L)
                      tenant (current_count it) L), s)"
    using acquire_denied[of s tenant it l] by simp
next
  fix s :: concurrency_table and it l
  assume "s tenant = Some it \<and> of_int (current_count it) = concurrency_limit it"
  then show "isl (fst (acquireConcurrencySlot tenant l s))"
    using acquire_denied[of s tenant it l] by simp
qed

theorem slot_count_within_limit_witness:
  "slot_in_range (Map.empty ''t'') \<and> integer_limit (Map.empty ''t'') \<and>
   requested_limit (Acquire (Some 2)) = 2 \<and> 1 \<le> requested_limit Release \<and>
   slot_in_range
     (slot_run ''t'' (take 3 [Acquire (Some 2), Acquire (Some 2), Acquire (Some 2), Release])
        Map.empty ''t'') \<and>
   slot_run ''t'' [Acquire (Some 2), Acquire (Some 2), Acquire (Some 2), Release] Map.empty ''t''
     = Some \<lparr>current_count = 1, concurrency_limit = 2\<rparr> \<and>
   acquireConcurrencySlot ''t'' (Some 2) [''t'' \<mapsto> \<lparr>current_count = 2, concurrency_limit = 2\<rparr>]
     = (Inl (ConcurrencyLimitExceededError ''Tenant t has reached concurrency limit of 2''
               ''t'' 2 2),
        [''t'' \<mapsto> \<lparr>current_count = 2, concurrency_limit = 2\<rparr>])"
proof -
  let ?cs = "[Acquire (Some 2), Acquire (Some 2), Acquire (Some 2), Release]"
  let ?full = "[''t'' \<mapsto> \<lparr>current_count = 2, concurrency_limit = 2\<rparr>]"
  have h1: "slot_in_range (Map.empty ''t'')"
    by (simp add: slot_in_range_def)
  have h2: "integer_limit (Map.empty ''t'')"
    by (simp add: integer_limit_def)
  have h3: "\<forall>c \<in> set ?cs. requested_limit c \<in> \<int> \<and> 1 \<le> requested_limit c"
    by (simp add: or_default_def DEFAULT_CONCURRENCY_LIMIT_def)
  note th = slot_count_within_limit[OF h1 h2 h3]
  from th have a: "slot_in_range (slot_run ''t'' (take 3 ?cs) Map.empty ''t'')"
    by blast
  from th have "\<forall>s it l L. s ''t'' = Some it \<and> concurrency_limit it = of_int L
                     \<and> \<not> current_count it < L \<longrightarrow>
            acquireConcurrencySlot ''t'' l s =
              (Inl (ConcurrencyLimitExceededError
                     (''Tenant '' @ ''t'' @ '' has reached concurrency limit of ''
                        @ toString L)
                     ''t'' (current_count it) L), s)"
    by blast
  from this[rule_format, of ?full "\<lparr>current_count = 2, concurrency_limit = 2\<rparr>" 2 "Some 2"]
  have b: "acquireConcurrencySlot ''t'' (Some 2) ?full
     = (Inl (ConcurrencyLimitExceededError ''Tenant t has reached concurrency limit of 2''
               ''t'' 2 2), ?full)"
    by (simp add: toString_def nat_toString.simps digit_char_def)
  have c: "slot_run ''t'' ?cs Map.empty ''t'' = Some \<lparr>current_count = 1, concurrency_limit = 2\<rparr>"
    by (simp add: slot_defs or_default_def DEFAULT_CONCURRENCY_LIMIT_def)
  from h1 h2 a b c show ?thesis
    by (simp add: or_default_def DEFAULT_CONCURRENCY_LIMIT_def)
qed

text \<open>
  C8: a release at count 0 changes nothing and does not throw
  (\<open>release_at_zero_is_noop\<close>), but the status it returns is built from the default limit,
  not read from the tenant's item. For a tenant whose stored limit is 5 (reached by an
  acquire with limit 5 and a release), a further release returns limit 10 and 10 available
  slots, where the tenant's state, as \<open>getCurrentConcurrency\<close> reads it, is limit 5 and 5
  available.
\<close>

theorem release_at_zero_reports_default_limit:
  "slot_run ''t'' [Acquire (Some 5), Release] Map.empty
     = [''t'' \<mapsto> \<lparr>current_count = 0, concurrency_limit = 5\<rparr>] \<and>
   releaseConcurrencySlot ''t'' [''t'' \<mapsto> \<lparr>current_count = 0, concurrency_limit = 5\<rparr>]
     = (Inr \<lparr>tenantId = ''t'', currentCount = 0, limit = 10, available = 10\<rparr>,
        [''t'' \<mapsto> \<lparr>current_count = 0, concurrency_limit = 5\<rparr>]) \<and>
   getCurrentConcurrency ''t'' [''t'' \<mapsto> \<lparr>current_count = 0, concurrency_limit = 5\<rparr>]
     = \<lparr>tenantId = ''t'', currentCount = 0, limit = 5, available = 5\<rparr>"
  by (simp add: slot_defs or_default_def DEFAULT_CONCURRENCY_LIMIT_def)

text \<open>
  C10: an acquire with the explicit limit 0 is the acquire with no limit, on every table;
  on a tenant with no item it succeeds with count 1 and stores the limit 10.
\<close>

theorem zero_limit_is_default:
  "acquireConcurrencySlot tenant (Some 0) tbl = acquireConcurrencySlot tenant None tbl \<and>
   fst (acquireConcurrencySlot tenant (Some 0) (tbl(tenant := None)))
     = Inr \<lparr>tenantId = tenant, currentCount = 1, limit = 10, available = 9\<rparr> \<and>
   snd (acquireConcurrencySlot tenant (Some 0) (tbl(tenant := None))) tenant
     = Some \<lparr>current_count = 1, concurrency_limit = 10\<rparr>"
  by (simp add: acquireConcurrencySlot_def incrementConcurrency_def or_default_def
      DEFAULT_CONCURRENCY_LIMIT_def)

section \<open>Properties of the task router and of the retry policy\<close>

lemmas route_defs = routeTask_def rule1_def rule2_def rule3_def rule4_def Let_def
  LARGE_FILE_THRESHOLD_BYTES_def LARGE_PAGE_COUNT_THRESHOLD_def LAMBDA_TIMEOUT_MS_def

text \<open>
  C9: \<open>routeTask\<close> answers \<open>FARGATE\<close> (the unbounded environment) for every malware
  scan, and whenever the file size exceeds 50 MB or the page count exceeds 100, whatever the
  estimate; for any other job it answers \<open>LAMBDA\<close> (the bounded environment) exactly when
  the estimated duration is under 15 minutes.
\<close>

theorem routeTask_rules:
 "(jobType md = MALWARE_SCAN \<longrightarrow> workerType (routeTask md) = FARGATE) \<and>
  (50 * 1024 * 1024 < default_zero (fileSizeBytes md) \<or> 100 < default_zero (pageCount md)
     \<longrightarrow> workerType (routeTask md) = FARGATE) \<and>
  (jobType md \<noteq> MALWARE_SCAN \<and> default_zero (fileSizeBytes md) \<le> 50 * 1024 * 1024
     \<and> default_zero (pageCount md) \<le> 100
     \<longrightarrow> (workerType (routeTask md) = LAMBDA \<longleftrightarrow> estimateTaskDuration md < 15 * 60 * 1000))"
  by (auto simp: route_defs)

theorem routeTask_rules_witness:
  "workerType (routeTask \<lparr>jobType = MALWARE_SCAN, fileSizeBytes = Some 1, pageCount = None\<rparr>) = FARGATE \<and>
   workerType (routeTask \<lparr>jobType = OCR, fileSizeBytes = None, pageCount = Some 150\<rparr>) = FARGATE \<and>
   estimateTaskDuration \<lparr>jobType = THUMBNAIL, fileSizeBytes = Some 1048576, pageCount = None\<rparr> = 5000 \<and>
   workerType (routeTask \<lparr>jobType = THUMBNAIL, fileSizeBytes = Some 1048576, pageCount = None\<rparr>) = LAMBDA"
proof -
  let ?m1 = "\<lparr>jobType = MALWARE_SCAN, fileSizeBytes = Some 1, pageCount = None\<rparr>"
  let ?m2 = "\<lparr>jobType = OCR, fileSizeBytes = None, pageCount = Some 150\<rparr>"
  let ?m3 = "\<lparr>jobType = THUMBNAIL, fileSizeBytes = Some 1048576, pageCount = None\<rparr>"
  have a: "workerType (routeTask ?m1) = FARGATE"
    using routeTask_rules[of ?m1] by simp
  have b: "workerType (routeTask ?m2) = FARGATE"
    using routeTask_rules[of ?m2] by (simp add: default_zero_def)
  have e: "estimateTaskDuration ?m3 = 5000"
    by (simp add: estimateTaskDuration_def default_zero_def THUMBNAIL_TIME_PER_MB_def)
  have c: "workerType (routeTask ?m3) = LAMBDA"
    using routeTask_rules[of ?m3] e by (simp add: default_zero_def)
  from a b c e show ?thesis by simp
qed

lemma backoff_defaults:
  "map (\<lambda>a. calculateExponentialBackoff a (baseDelayMs DEFAULT_RETRY_CONFIG)
               (maxDelayMs DEFAULT_RETRY_CONFIG)) [1, 2, 3, 4, 5]
     = [1000, 2000, 4000, 8000, 16000]"
  by (simp add: calculateExponentialBackoff_def DEFAULT_RETRY_CONFIG_def power_int_def)

lemma retry_from_exhaust:
  assumes "k \<le> M" and "M = maxAttempts cfg"
    and "\<forall>a. k \<le> a \<and> a < M \<longrightarrow> (\<exists>e. operation a = Inl e \<and> isRetryableError e (retryableErrors cfg))"
    and "operation M = Inl err"
  shows "retry_from cfg operation k le calls delays =
           \<lparr>outcome = Inl err, invocations = calls + nat (M - k + 1),
            slept = delays @ map (\<lambda>a. calculateExponentialBackoff a (baseDelayMs cfg) (maxDelayMs cfg)) [k..M - 1]\<rparr>"
  using assms
proof (induction "nat (M - k)" arbitrary: k le calls delays)
  case 0
  then have "k = M" by simp
  with 0 show ?case by (simp add: retry_from.simps)
next
  case (Suc n)
  then have lt: "k < M" by linarith
  with Suc.prems obtain e where e: "operation k = Inl e" "isRetryableError e (retryableErrors cfg)"
    by blast
  have n: "n = nat (M - (k + 1))" using Suc.hyps(2) by linarith
  have IH: "retry_from cfg operation (k + 1) (Some e) (calls + 1)
       (delays @ [calculateExponentialBackoff k (baseDelayMs cfg) (maxDelayMs cfg)]) =
      \<lparr>outcome = Inl err, invocations = (calls + 1) + nat (M - (k + 1) + 1),
       slept = (delays @ [calculateExponentialBackoff k (baseDelayMs cfg) (maxDelayMs cfg)]) @
          map (\<lambda>a. calculateExponentialBackoff a (baseDelayMs cfg) (maxDelayMs cfg)) [k + 1..M - 1]\<rparr>"
    using Suc.prems lt by (intro Suc.hyps(1)[OF n]) auto
  have up: "[k..M - 1] = k # [k + 1..M - 1]" using lt by (simp add: upto_rec1)
  have cnt: "calls + 1 + nat (M - (k + 1) + 1) = calls + nat (M - k + 1)" using lt by linarith
  have step: "retry_from cfg operation k le calls delays =
      retry_from cfg operation (k + 1) (Some e) (calls + 1)
       (delays @ [calculateExponentialBackoff k (baseDelayMs cfg) (maxDelayMs cfg)])"
    using lt e Suc.prems(2) by (subst retry_from.simps) simp
  show ?case unfolding step IH up cnt by simp
qed

text \<open>
  C6: with the default configuration the delays of attempts 1 to 5 are 1000, 2000, 4000,
  8000 and 16000 ms. When the first invocation throws an error that is not retryable, the
  error is rethrown after that one invocation and no sleep. When every attempt before the
  last throws a retryable error and the last attempt throws, that last error is rethrown
  after \<open>maxAttempts\<close> invocations, the delays slept being those of attempts 1 to
  \<open>maxAttempts - 1\<close>.
\<close>

theorem retry_policy:
  "map (\<lambda>a. calculateExponentialBackoff a (baseDelayMs DEFAULT_RETRY_CONFIG)
               (maxDelayMs DEFAULT_RETRY_CONFIG)) [1, 2, 3, 4, 5]
     = [1000, 2000, 4000, 8000, 16000] \<and>
   (1 \<le> maxAttempts (finalConfig config) \<and> operation 1 = Inl err
      \<and> \<not> isRetryableError err (retryableErrors (finalConfig config))
    \<longrightarrow> retryWithExponentialBackoff operation config
          = \<lparr>outcome = Inl err, invocations = 1, slept = []\<rparr>) \<and>
   (1 \<le> maxAttempts (finalConfig config)
      \<and> (\<forall>a. 1 \<le> a \<and> a < maxAttempts (finalConfig config) \<longrightarrow>
            (\<exists>e. operation a = Inl e \<and> isRetryableError e (retryableErrors (finalConfig config))))
      \<and> operation (maxAttempts (finalConfig config)) = Inl err
    \<longrightarrow> outcome (retryWithExponentialBackoff operation config) = Inl err
        \<and> invocations (retryWithExponentialBackoff operation config)
            = nat (maxAttempts (finalConfig config))
        \<and> slept (retryWithExponentialBackoff operation config)
            = map (\<lambda>a. calculateExponentialBackoff a (baseDelayMs (finalConfig config))
                         (maxDelayMs (finalConfig config)))
                [1..maxAttempts (finalConfig config) - 1])"
proof (intro conjI impI)
  show "map (\<lambda>a. calculateExponentialBackoff a (baseDelayMs DEFAULT_RETRY_CONFIG)
               (maxDelayMs DEFAULT_RETRY_CONFIG)) [1, 2, 3, 4, 5]
     = [1000, 2000, 4000, 8000, 16000]" by (rule backoff_defaults)
next
  assume "1 \<le> maxAttempts (finalConfig config) \<and> operation 1 = Inl err
      \<and> \<not> isRetryableError err (retryableErrors (finalConfig config))"
  then show "retryWithExponentialBackoff operation config
          = \<lparr>outcome = Inl err, invocations = 1, slept = []\<rparr>"
    by (simp add: retryWithExponentialBackoff_def retry_from.simps)
next
  assume a: "1 \<le> maxAttempts (finalConfig config)
      \<and> (\<forall>a. 1 \<le> a \<and> a < maxAttempts (finalConfig config) \<longrightarrow>
            (\<exists>e. operation a = Inl e \<and> isRetryableError e (retryableErrors (finalConfig config))))
      \<and> operation (maxAttempts (finalConfig config)) = Inl err"
  from retry_from_exhaust[of 1 "maxAttempts (finalConfig config)" "finalConfig config" operation err None 0 "[]"] a
  show "outcome (retryWithExponentialBackoff operation config) = Inl err" 
    by (simp add: retryWithExponentialBackoff_def)
  from retry_from_exhaust[of 1 "maxAttempts (finalConfig config)" "finalConfig config" operation err None 0 "[]"] a
  show "invocations (retryWithExponentialBackoff operation config)
            = nat (maxAttempts (finalConfig config))"
    by (simp add: retryWithExponentialBackoff_def)
  from retry_from_exhaust[of 1 "maxAttempts (finalConfig config)" "finalConfig config" operation err None 0 "[]"] a
  show "slept (retryWithExponentialBackoff operation config)
            = map (\<lambda>a. calculateExponentialBackoff a (baseDelayMs (finalConfig config))
                         (maxDelayMs (finalConfig config)))
                [1..maxAttempts (finalConfig config) - 1]"
    by (simp add: retryWithExponentialBackoff_def)
qed

lemma finalConfig_no_overrides: "finalConfig no_overrides = DEFAULT_RETRY_CONFIG"
  by (simp add: finalConfig_def no_overrides_def DEFAULT_RETRY_CONFIG_def)

lemma network_error_retryable: "isRetryableError (Error ''NetworkError'' ''down'') (retryableErrors DEFAULT_RETRY_CONFIG)"
  by (simp add: isRetryableError_def DEFAULT_RETRY_CONFIG_def sublist_code prefix_code)

lemma validation_error_not_retryable: "\<not> isRetryableError (Error ''ValidationError'' ''bad'') (retryableErrors DEFAULT_RETRY_CONFIG)"
  by (simp add: isRetryableError_def DEFAULT_RETRY_CONFIG_def sublist_code prefix_code)

theorem retry_policy_witness:
  "retryWithExponentialBackoff (\<lambda>a. Inl (Error ''ValidationError'' ''bad'') :: error + unit) no_overrides
     = \<lparr>outcome = Inl (Error ''ValidationError'' ''bad''), invocations = 1, slept = []\<rparr> \<and>
   outcome (retryWithExponentialBackoff (\<lambda>a. Inl (Error ''NetworkError'' ''down'') :: error + unit) no_overrides)
     = Inl (Error ''NetworkError'' ''down'') \<and>
   invocations (retryWithExponentialBackoff (\<lambda>a. Inl (Error ''NetworkError'' ''down'') :: error + unit) no_overrides) = 5 \<and>
   slept (retryWithExponentialBackoff (\<lambda>a. Inl (Error ''NetworkError'' ''down'') :: error + unit) no_overrides)
     = [1000, 2000, 4000, 8000]"
proof -
  let ?bad = "\<lambda>a::int. Inl (Error ''ValidationError'' ''bad'') :: error + unit"
  let ?down = "\<lambda>a::int. Inl (Error ''NetworkError'' ''down'') :: error + unit"
  have m: "maxAttempts DEFAULT_RETRY_CONFIG = 5" by (simp add: DEFAULT_RETRY_CONFIG_def)
  have a: "retryWithExponentialBackoff ?bad no_overrides
     = \<lparr>outcome = Inl (Error ''ValidationError'' ''bad''), invocations = 1, slept = []\<rparr>"
    using retry_policy[of no_overrides ?bad "Error ''ValidationError'' ''bad''"] validation_error_not_retryable
    by (simp add: finalConfig_no_overrides m)
  have up: "[1..4::int] = [1, 2, 3, 4]" by (simp add: upto_rec1)
  have b: "outcome (retryWithExponentialBackoff ?down no_overrides) = Inl (Error ''NetworkError'' ''down'')
     \<and> invocations (retryWithExponentialBackoff ?down no_overrides) = 5
     \<and> slept (retryWithExponentialBackoff ?down no_overrides) = [1000, 2000, 4000, 8000]"
    using retry_policy[of no_overrides ?down "Error ''NetworkError'' ''down''"] network_error_retryable
    by (simp add: finalConfig_no_overrides m up)
  from a b show ?thesis by simp
qed

section \<open>Properties of the handlers\<close>

lemma query_ok:
  "db_faults w = [] \<Longrightarrow>
   query stmt rows now w
     = (Inr (rows stmt now w), (effect stmt now w)\<lparr>executed := executed w @ [stmt]\<rparr>)"
  by (cases stmt) (simp_all add: query_def)

lemma first_row_find:
  "(case filter P xs of [] \<Rightarrow> None | r # _ \<Rightarrow> Some r) = find P xs"
  by (induction xs) auto

lemma status_name_DELETED [simp]: "status_name st = ''DELETED'' \<longleftrightarrow> st = DELETED"
  by (cases st) simp_all

lemma status_name_DELETING [simp]: "status_name st = ''DELETING'' \<longleftrightarrow> st = DELETING"
  by (cases st) simp_all

lemma pg_row_tenantId [simp]: "pg_row delete_document_columns doc ''tenantId'' = None"
  by (simp add: pg_row_def delete_document_columns_def)

lemma pg_row_legalHold [simp]: "pg_row delete_document_columns doc ''legalHold'' = None"
  by (simp add: pg_row_def delete_document_columns_def)

lemma mocked_row_properties [simp]:
  "mocked_row doc ''tenantId'' = Some (JString (doc_tenantId doc))"
  "mocked_row doc ''legalHold'' = Some (JBoolean (legalHold doc))"
  "mocked_row doc ''status'' = Some (JString (status_name (doc_status doc)))"
  "mocked_row doc ''name'' = Some (JString (doc_name doc))"
  by (simp_all add: mocked_row_def)

text \<open>
  On the rows of the driver the comparison \<open>document.tenantId !== authContext.tenantId\<close>
  compares \<open>undefined\<close> with a string: every request for an existing document, of the
  caller's tenant or not, is answered 403, and nothing is written.
\<close>

lemma delete_document_always_forbidden:
  assumes "db_faults w = []"
    and "validateToken event = Inr authContext"
    and "pathParameter_id event = Some documentId" and "documentId \<noteq> []"
    and "find (\<lambda>doc. doc_id doc = documentId) (documents w) = Some document"
  shows "delete_document_handler event now w =
           (\<lparr>statusCode = 403,
             body = ErrorBody ''FORBIDDEN'' ''Cannot delete document from different tenant''\<rparr>,
            w\<lparr>executed := executed w @ [SELECT_document documentId]\<rparr>)"
  using assms
  by (simp add: delete_document_handler_def handler_with_def delete_document_try_def
      queryOne_def query_ok first_row_find)

text \<open>
  On the rows of the tests, which carry the property names of the \<open>Document\<close> interface,
  the guards do what C3 says: legal hold and the statuses \<open>DELETED\<close> and \<open>DELETING\<close> are
  refused with \<open>ConflictError\<close> and the table is unchanged; otherwise the row is
  soft-deleted.
\<close>

lemma delete_document_guards_on_mocked_rows:
  assumes "db_faults w = []"
    and "validateToken event = Inr authContext"
    and "pathParameter_id event = Some documentId" and "documentId \<noteq> []"
    and "find (\<lambda>doc. doc_id doc = documentId) (documents w) = Some document"
    and "doc_tenantId document = auth_tenantId authContext"
  shows "(legalHold document \<longrightarrow>
            fst (delete_document_try mocked_row event now w)
              = Inl (ConflictError ''Cannot delete document with active legal hold'') \<and>
            statusCode (fst (handler_with mocked_row event now w)) = 409 \<and>
            documents (snd (handler_with mocked_row event now w)) = documents w) \<and>
         (\<not> legalHold document \<and> (doc_status document = DELETED \<or> doc_status document = DELETING) \<longrightarrow>
            fst (delete_document_try mocked_row event now w)
              = Inl (ConflictError ''Document is already deleted or being deleted'') \<and>
            statusCode (fst (handler_with mocked_row event now w)) = 409 \<and>
            documents (snd (handler_with mocked_row event now w)) = documents w) \<and>
         (\<not> legalHold document \<and> doc_status document \<noteq> DELETED \<and> doc_status document \<noteq> DELETING \<longrightarrow>
            fst (handler_with mocked_row event now w)
              = \<lparr>statusCode = 200, body = SoftDeleted documentId now\<rparr> \<and>
            documents (snd (handler_with mocked_row event now w))
              = map (\<lambda>doc. if doc_id doc = documentId
                            then doc\<lparr>doc_status := DELETED, deletedAt := Some now, updatedAt := now\<rparr>
                            else doc) (documents w))"
  using assms
  by (auto simp: handler_with_def delete_document_try_def queryOne_def query_ok
      first_row_find createAuditLog_def js_truthy_def)

lemma mark_for_hard_delete_ok:
  "db_faults w = [] \<Longrightarrow>
   documents (mark_for_hard_delete docs now w)
     = map (\<lambda>doc. if doc_id doc \<in> doc_id ` set docs then promote now doc else doc) (documents w)
   \<and> hard_delete_queue (mark_for_hard_delete docs now w) = hard_delete_queue w
   \<and> document_versions (mark_for_hard_delete docs now w) = document_versions w
   \<and> processing_jobs (mark_for_hard_delete docs now w) = processing_jobs w
   \<and> audit_logs (mark_for_hard_delete docs now w) = audit_logs w
   \<and> objects (mark_for_hard_delete docs now w) = objects w"
proof (induction docs arbitrary: w)
  case Nil
  then show ?case by simp
next
  case (Cons d docs)
  let ?w1 = "snd (query (UPDATE_document_status DELETING (doc_id d)) no_rows now w)"
  from Cons.prems have w1: "?w1 = (effect (UPDATE_document_status DELETING (doc_id d)) now w)
      \<lparr>executed := executed w @ [UPDATE_document_status DELETING (doc_id d)]\<rparr>"
    by (simp add: query_ok)
  with Cons.prems have f: "db_faults ?w1 = []" by simp
  from Cons.IH[OF f] show ?case
    by (simp add: w1 promote_def comp_def)
qed

text \<open>
  C5 (amended): with the row store answering and document ids unique, the retention
  handler selects exactly the documents that are soft-deleted, have \<open>deletedAt\<close> set, are
  not under legal hold and were deleted more than \<open>retentionDays\<close> days ago; it sets each
  of them to \<open>DELETING\<close> (stamping \<open>updatedAt\<close>) and leaves every other document as it
  was. It enqueues no hard-delete work item: the hard-delete queue is as it was.
\<close>

theorem retention_sweep:
  assumes "db_faults w = []" and "distinct (map doc_id (documents w))"
  shows "fst (retention_enforcement_handler now w) = Inr () \<and>
         document_rows (SELECT_expired_documents DELETED) now w
           = filter (retention_expired now) (documents w) \<and>
         documents (snd (retention_enforcement_handler now w))
           = map (\<lambda>doc. if retention_expired now doc
                         then doc\<lparr>doc_status := DELETING, updatedAt := now\<rparr> else doc) (documents w) \<and>
         hard_delete_queue (snd (retention_enforcement_handler now w)) = hard_delete_queue w"
proof -
  let ?sel = "filter (retention_expired now) (documents w)"
  have rows: "document_rows (SELECT_expired_documents DELETED) now w = ?sel"
    by (simp add: retention_expired_def cong: filter_cong)
  let ?w1 = "w\<lparr>executed := executed w @ [SELECT_expired_documents DELETED]\<rparr>"
  have q: "query (SELECT_expired_documents DELETED) document_rows now w = (Inr ?sel, ?w1)"
    using assms(1) rows by (simp add: query_ok)
  have f1: "db_faults ?w1 = []" using assms(1) by simp
  have ids: "\<And>doc. doc \<in> set (documents w) \<Longrightarrow>
      (doc_id doc \<in> doc_id ` set ?sel) = retention_expired now doc"
    using assms(2) by (auto simp: distinct_map dest: inj_onD)
  have m: "map (\<lambda>doc. if doc_id doc \<in> doc_id ` set ?sel then promote now doc else doc) (documents w)
      = map (\<lambda>doc. if retention_expired now doc then promote now doc else doc) (documents w)"
    using ids by (intro map_cong) auto
  show ?thesis
  proof (cases "?sel = []")
    case True
    then have "\<And>doc. doc \<in> set (documents w) \<Longrightarrow> \<not> retention_expired now doc"
      by (auto simp: filter_empty_conv)
    then have "map (\<lambda>doc. if retention_expired now doc
                         then doc\<lparr>doc_status := DELETING, updatedAt := now\<rparr> else doc) (documents w) = documents w"
      by (induction "documents w") (auto simp: map_idI)
    with True rows q show ?thesis by (simp add: retention_enforcement_handler_def)
  next
    case False
    with q have "snd (retention_enforcement_handler now w) = mark_for_hard_delete ?sel now ?w1"
      and "fst (retention_enforcement_handler now w) = Inr ()"
      by (simp_all add: retention_enforcement_handler_def)
    with mark_for_hard_delete_ok[OF f1, of ?sel now] m rows show ?thesis
      by (simp add: promote_def)
  qed
qed

lemma release_table:
  "releaseConcurrencySlot t tbl =
     (fst (releaseConcurrencySlot t tbl),
      case tbl t of
        None \<Rightarrow> tbl
      | Some it \<Rightarrow> if 0 < current_count it
                   then tbl(t \<mapsto> it\<lparr>current_count := current_count it - 1\<rparr>) else tbl)"
  by (auto simp: slot_defs split: option.splits)

lemma release_returns: "\<exists>cs. fst (releaseConcurrencySlot t tbl) = Inr cs"
  by (auto simp: slot_defs split: option.splits)

text \<open>
  C7: with the row store answering. When the slot is denied (the tenant's count is not
  below its limit), the matching jobs are set to \<open>PENDING\<close> with \<open>attempts\<close> incremented
  by one, the counter is as it was, and the response is \<open>QUEUED\<close> with a reason that
  names the limit. When the slot is acquired, the matching jobs are set to \<open>RUNNING\<close> with
  \<open>startedAt\<close> set and the response is \<open>ACCEPTED\<close> with the slot status: the count is one
  more than before on an existing counter, and 1 on a new one. \<open>completeProcessing\<close>
  releases the slot: the count is one less than before when it was positive, and
  unchanged otherwise; and it sets the matching jobs to \<open>COMPLETED\<close> or \<open>FAILED\<close> with
  \<open>completedAt\<close> set.
\<close>

theorem stage_admission:
  assumes "db_faults w = []"
  shows "(\<forall>it. concurrency w (req_tenantId request) = Some it
              \<and> \<not> of_int (current_count it) < concurrency_limit it \<longrightarrow>
            enforceAndStartProcessing request now w =
              (Inr \<lparr>res_documentId = req_documentId request, res_versionId = req_versionId request,
                    res_status = QUEUED, concurrencyStatus = None,
                    reason = Some (''Tenant concurrency limit reached (''
                                     @ toString (parseInt (concurrency_limit it))
                                     @ ''). Task will retry.'')\<rparr>,
               w\<lparr>processing_jobs :=
                     map (\<lambda>job. if job_matches (req_documentId request) (req_versionId request)
                                      (req_jobType request) job
                                 then job\<lparr>job_status := PENDING, attempts := attempts job + 1\<rparr>
                                 else job) (processing_jobs w),
                  executed := executed w @ [UPDATE_job_pending (req_documentId request)
                                 (req_versionId request) (req_jobType request)]\<rparr>)) \<and>
         (\<forall>cs tbl. acquireConcurrencySlot (req_tenantId request) (req_concurrencyLimit request)
                      (concurrency w) = (Inr cs, tbl) \<longrightarrow>
            enforceAndStartProcessing request now w =
              (Inr \<lparr>res_documentId = req_documentId request, res_versionId = req_versionId request,
                    res_status = ACCEPTED, concurrencyStatus = Some cs, reason = None\<rparr>,
               w\<lparr>concurrency := tbl,
                  processing_jobs :=
                     map (\<lambda>job. if job_matches (req_documentId request) (req_versionId request)
                                      (req_jobType request) job
                                 then job\<lparr>job_status := RUNNING, startedAt := Some now\<rparr>
                                 else job) (processing_jobs w),
                  executed := executed w @ [UPDATE_job_running (req_documentId request)
                                 (req_versionId request) (req_jobType request)]\<rparr>)) \<and>
         (\<forall>it. concurrency w (req_tenantId request) = Some it
              \<and> of_int (current_count it) < concurrency_limit it \<longrightarrow>
            acquireConcurrencySlot (req_tenantId request) (req_concurrencyLimit request)
                (concurrency w)
              = (Inr \<lparr>tenantId = req_tenantId request, currentCount = current_count it + 1,
                      limit = parseInt (concurrency_limit it),
                      available = max 0 (parseInt (concurrency_limit it)
                                           - (current_count it + 1))\<rparr>,
                 (concurrency w)(req_tenantId request
                    \<mapsto> it\<lparr>current_count := current_count it + 1\<rparr>))) \<and>
         (concurrency w (req_tenantId request) = None \<longrightarrow>
            acquireConcurrencySlot (req_tenantId request) (req_concurrencyLimit request)
                (concurrency w)
              = (Inr \<lparr>tenantId = req_tenantId request, currentCount = 1,
                      limit = parseInt (or_default (req_concurrencyLimit request) 10),
                      available = max 0 (parseInt (or_default (req_concurrencyLimit request) 10)
                                           - 1)\<rparr>,
                 (concurrency w)(req_tenantId request
                    \<mapsto> \<lparr>current_count = 1,
                        concurrency_limit = or_default (req_concurrencyLimit request) 10\<rparr>))) \<and>
         completeProcessing d v t j success now w =
           (Inr (),
            w\<lparr>concurrency :=
                 (case concurrency w t of
                    None \<Rightarrow> concurrency w
                  | Some it \<Rightarrow>
                      if 0 < current_count it
                      then (concurrency w)(t \<mapsto> it\<lparr>current_count := current_count it - 1\<rparr>)
                      else concurrency w),
               processing_jobs :=
                 map (\<lambda>job. if job_matches d v j job
                             then job\<lparr>job_status := (if success then COMPLETED else FAILED),
                                      completedAt := Some now\<rparr>
                             else job) (processing_jobs w),
               executed := executed w @ [UPDATE_job_completed (if success then COMPLETED else FAILED)
                                           d v j]\<rparr>)"
proof (intro conjI allI impI)
  fix it
  assume a: "concurrency w (req_tenantId request) = Some it
              \<and> \<not> of_int (current_count it) < concurrency_limit it"
  then have "acquireConcurrencySlot (req_tenantId request) (req_concurrencyLimit request) (concurrency w)
     = (Inl (ConcurrencyLimitExceededError
            (''Tenant '' @ req_tenantId request @ '' has reached concurrency limit of ''
               @ toString (parseInt (concurrency_limit it)))
            (req_tenantId request) (current_count it) (parseInt (concurrency_limit it))),
        concurrency w)"
    by (simp add: acquire_denied)
  with assms show "enforceAndStartProcessing request now w =
              (Inr \<lparr>res_documentId = req_documentId request, res_versionId = req_versionId request,
                    res_status = QUEUED, concurrencyStatus = None,
                    reason = Some (''Tenant concurrency limit reached (''
                                     @ toString (parseInt (concurrency_limit it))
                                     @ ''). Task will retry.'')\<rparr>,
               w\<lparr>processing_jobs :=
                     map (\<lambda>job. if job_matches (req_documentId request) (req_versionId request)
                                      (req_jobType request) job
                                 then job\<lparr>job_status := PENDING, attempts := attempts job + 1\<rparr>
                                 else job) (processing_jobs w),
                  executed := executed w @ [UPDATE_job_pending (req_documentId request)
                                 (req_versionId request) (req_jobType request)]\<rparr>)"
    by (simp add: enforceAndStartProcessing_def enforceAndStartProcessing_try_def query_ok)
next
  fix cs tbl
  assume "acquireConcurrencySlot (req_tenantId request) (req_concurrencyLimit request)
                      (concurrency w) = (Inr cs, tbl)"
  with assms show "enforceAndStartProcessing request now w =
              (Inr \<lparr>res_documentId = req_documentId request, res_versionId = req_versionId request,
                    res_status = ACCEPTED, concurrencyStatus = Some cs, reason = None\<rparr>,
               w\<lparr>concurrency := tbl,
                  processing_jobs :=
                     map (\<lambda>job. if job_matches (req_documentId request) (req_versionId request)
                                      (req_jobType request) job
                                 then job\<lparr>job_status := RUNNING, startedAt := Some now\<rparr>
                                 else job) (processing_jobs w),
                  executed := executed w @ [UPDATE_job_running (req_documentId request)
                                 (req_versionId request) (req_jobType request)]\<rparr>)"
    by (simp add: enforceAndStartProcessing_def enforceAndStartProcessing_try_def query_ok)
next
  fix it
  assume "concurrency w (req_tenantId request) = Some it
              \<and> of_int (current_count it) < concurrency_limit it"
  then show "acquireConcurrencySlot (req_tenantId request) (req_concurrencyLimit request)
                (concurrency w)
              = (Inr \<lparr>tenantId = req_tenantId request, currentCount = current_count it + 1,
                      limit = parseInt (concurrency_limit it),
                      available = max 0 (parseInt (concurrency_limit it)
                                           - (current_count it + 1))\<rparr>,
                 (concurrency w)(req_tenantId request
                    \<mapsto> it\<lparr>current_count := current_count it + 1\<rparr>))"
    by (simp add: slot_defs)
next
  assume "concurrency w (req_tenantId request) = None"
  then show "acquireConcurrencySlot (req_tenantId request) (req_concurrencyLimit request)
                (concurrency w)
              = (Inr \<lparr>tenantId = req_tenantId request, currentCount = 1,
                      limit = parseInt (or_default (req_concurrencyLimit request) 10),
                      available = max 0 (parseInt (or_default (req_concurrencyLimit request) 10)
                                           - 1)\<rparr>,
                 (concurrency w)(req_tenantId request
                    \<mapsto> \<lparr>current_count = 1,
                        concurrency_limit = or_default (req_concurrencyLimit request) 10\<rparr>))"
    by (simp add: slot_defs DEFAULT_CONCURRENCY_LIMIT_def)
next
  obtain cs where cs: "fst (releaseConcurrencySlot t (concurrency w)) = Inr cs"
    using release_returns by blast
  have r: "releaseConcurrencySlot t (concurrency w) =
      (Inr cs,
       case concurrency w t of
         None \<Rightarrow> concurrency w
       | Some it \<Rightarrow> if 0 < current_count it
                    then (concurrency w)(t \<mapsto> it\<lparr>current_count := current_count it - 1\<rparr>)
                    else concurrency w)"
    using release_table[of t "concurrency w"] cs by simp
  from assms show "completeProcessing d v t j success now w =
           (Inr (),
            w\<lparr>concurrency :=
                 (case concurrency w t of
                    None \<Rightarrow> concurrency w
                  | Some it \<Rightarrow>
                      if 0 < current_count it
                      then (concurrency w)(t \<mapsto> it\<lparr>current_count := current_count it - 1\<rparr>)
                      else concurrency w),
               processing_jobs :=
                 map (\<lambda>job. if job_matches d v j job
                             then job\<lparr>job_status := (if success then COMPLETED else FAILED),
                                      completedAt := Some now\<rparr>
                             else job) (processing_jobs w),
               executed := executed w @ [UPDATE_job_completed (if success then COMPLETED else FAILED)
                                           d v j]\<rparr>)"
    by (simp add: completeProcessing_def r query_ok)
qed

text \<open>
  C2: \<open>executeWithConcurrencyEnforcement\<close> does not release the slot when the statement
  that marks the job \<open>RUNNING\<close> fails after the slot was acquired: the tenant holds no
  slot before the call and one slot after it has thrown.
\<close>

theorem enforcement_leaks_slot:
  "slots_held ''t1'' (empty_world\<lparr>processing_jobs := [example_job], db_faults := [True]\<rparr>) = 0 \<and>
   fst (executeWithConcurrencyEnforcement example_request (Inr ()) 5
          (empty_world\<lparr>processing_jobs := [example_job], db_faults := [True]\<rparr>))
     = Inl (Error ''DatabaseError'' ''statement failed'') \<and>
   slots_held ''t1''
     (snd (executeWithConcurrencyEnforcement example_request (Inr ()) 5
             (empty_world\<lparr>processing_jobs := [example_job], db_faults := [True]\<rparr>))) = 1"
  by (simp add: slots_held_def empty_world_def example_request_def example_job_def
      executeWithConcurrencyEnforcement_def enforceAndStartProcessing_def
      enforceAndStartProcessing_try_def query_def slot_defs or_default_def
      DEFAULT_CONCURRENCY_LIMIT_def)

text \<open>
  A second path of the same function releases twice: when the statement of
  \<open>completeProcessing\<close> fails after its release, \<open>handleProcessingFailure\<close> releases
  again, and the tenant ends with one slot fewer than before the call.
\<close>

lemma double_release_example:
  "slots_held ''t1'' (empty_world\<lparr>concurrency := [''t1'' \<mapsto> \<lparr>current_count = 1, concurrency_limit = 10\<rparr>],
       processing_jobs := [example_job], db_faults := [False, True]\<rparr>) = 1 \<and>
   fst (executeWithConcurrencyEnforcement example_request (Inr ()) 5
          (empty_world\<lparr>concurrency := [''t1'' \<mapsto> \<lparr>current_count = 1, concurrency_limit = 10\<rparr>],
       processing_jobs := [example_job], db_faults := [False, True]\<rparr>))
     = Inl (Error ''DatabaseError'' ''statement failed'') \<and>
   slots_held ''t1''
     (snd (executeWithConcurrencyEnforcement example_request (Inr ()) 5
             (empty_world\<lparr>concurrency := [''t1'' \<mapsto> \<lparr>current_count = 1, concurrency_limit = 10\<rparr>],
       processing_jobs := [example_job], db_faults := [False, True]\<rparr>))) = 0"
  by (simp add: slots_held_def empty_world_def example_request_def example_job_def
      executeWithConcurrencyEnforcement_def enforceAndStartProcessing_def
      enforceAndStartProcessing_try_def completeProcessing_def failure_path_def
      handleProcessingFailure_def query_def slot_defs or_default_def
      DEFAULT_CONCURRENCY_LIMIT_def)

text \<open>
  \<open>withConcurrencyControl\<close> releases in \<open>finally\<close>, and so does
  \<open>executeWithConcurrencyEnforcement\<close> as long as the row store answers.
\<close>

lemma withConcurrencyControl_releases:
  assumes "slot_in_range (tbl tenant)"
    and "acquireConcurrencySlot tenant l tbl = (Inr cs, tbl1)"
  shows "fst (withConcurrencyControl tenant operation l tbl) = operation \<and>
         currentCount (getCurrentConcurrency tenant (snd (withConcurrencyControl tenant operation l tbl)))
           = currentCount (getCurrentConcurrency tenant tbl)"
  using assms
  by (auto simp: withConcurrencyControl_def slot_defs slot_in_range_def
      split: option.splits if_splits)

lemma enforcement_releases_when_db_answers:
  assumes "db_faults w = []" and "slot_in_range (concurrency w (req_tenantId wrapper))"
    and "acquireConcurrencySlot (req_tenantId wrapper) (req_concurrencyLimit wrapper) (concurrency w) = (Inr cs, tbl1)"
  shows "slots_held (req_tenantId wrapper) (snd (executeWithConcurrencyEnforcement wrapper operation now w))
           = slots_held (req_tenantId wrapper) w"
  using assms
  by (cases operation)
     (auto simp: executeWithConcurrencyEnforcement_def enforceAndStartProcessing_def
      enforceAndStartProcessing_try_def completeProcessing_def failure_path_def
      handleProcessingFailure_def query_ok slots_held_def slot_defs slot_in_range_def
      split: option.splits if_splits)

section \<open>The handlers on the example data\<close>

lemmas example_defs =
  empty_world_def example_job_def example_request_def example_document_def doc_held_def
  doc_ready_def doc_recent_def doc_old_def example_delete_request_def DAY_MS_def

text \<open>
  C3: the handler does not reach its guards. For the caller of tenant \<open>t1\<close> and the
  example documents of tenant \<open>t1\<close>, the request for the document under legal hold is
  answered 403 (C3: \<open>ConflictError\<close>, 409), and the request for the ready document is
  answered 403 with the documents as they were (C3: the row gets status \<open>DELETED\<close> and
  \<open>deletedAt\<close>). On the rows that the tests supply the same requests are answered 409
  and 200.
\<close>

theorem delete_document_forbidden_for_own_tenant:
  "fst (delete_document_handler (example_delete_request ''d1'') (100 * DAY_MS)
      (empty_world\<lparr>documents := [doc_held, doc_ready, doc_recent]\<rparr>))
     = \<lparr>statusCode = 403,
        body = ErrorBody ''FORBIDDEN'' ''Cannot delete document from different tenant''\<rparr> \<and>
   fst (delete_document_handler (example_delete_request ''d2'') (100 * DAY_MS)
      (empty_world\<lparr>documents := [doc_held, doc_ready, doc_recent]\<rparr>))
     = \<lparr>statusCode = 403,
        body = ErrorBody ''FORBIDDEN'' ''Cannot delete document from different tenant''\<rparr> \<and>
   documents (snd (delete_document_handler (example_delete_request ''d2'') (100 * DAY_MS)
      (empty_world\<lparr>documents := [doc_held, doc_ready, doc_recent]\<rparr>)))
     = [doc_held, doc_ready, doc_recent] \<and>
   statusCode (fst (handler_with mocked_row (example_delete_request ''d1'') (100 * DAY_MS)
      (empty_world\<lparr>documents := [doc_held, doc_ready, doc_recent]\<rparr>))) = 409 \<and>
   statusCode (fst (handler_with mocked_row (example_delete_request ''d2'') (100 * DAY_MS)
      (empty_world\<lparr>documents := [doc_held, doc_ready, doc_recent]\<rparr>))) = 200"
  by (simp add: delete_document_handler_def handler_with_def delete_document_try_def
      queryOne_def query_def createAuditLog_def js_truthy_def example_defs)

text \<open>
  C5, as stated, fails on the enqueuing: a sweep over a document deleted 31 days ago under
  a 30-day policy sets it to \<open>DELETING\<close> and leaves the hard-delete queue empty.
\<close>

theorem retention_sweep_enqueues_nothing:
  "map doc_status (documents (snd (retention_enforcement_handler (100 * DAY_MS)
      (empty_world\<lparr>documents := [doc_held, doc_recent, doc_old]\<rparr>))))
     = [READY, DELETED, DELETING] \<and>
   hard_delete_queue (snd (retention_enforcement_handler (100 * DAY_MS)
      (empty_world\<lparr>documents := [doc_held, doc_recent, doc_old]\<rparr>))) = []"
  by (simp add: retention_enforcement_handler_def query_def example_defs)

text \<open>
  C5 at the example documents: the document deleted 15 days ago is untouched, the one
  deleted 31 days ago is promoted.
\<close>

theorem retention_sweep_witness:
  "retention_expired (100 * DAY_MS) doc_old \<and> \<not> retention_expired (100 * DAY_MS) doc_recent \<and>
   documents (snd (retention_enforcement_handler (100 * DAY_MS)
      (empty_world\<lparr>documents := [doc_held, doc_recent, doc_old]\<rparr>)))
     = [doc_held, doc_recent, doc_old\<lparr>doc_status := DELETING, updatedAt := 100 * DAY_MS\<rparr>]"
proof -
  let ?w = "empty_world\<lparr>documents := [doc_held, doc_recent, doc_old]\<rparr>"
  have f: "db_faults ?w = []" by (simp add: empty_world_def)
  have d: "distinct (map doc_id (documents ?w))" by (simp add: example_defs)
  have e1: "retention_expired (100 * DAY_MS) doc_old"
    by (simp add: retention_expired_def example_defs)
  have e2: "\<not> retention_expired (100 * DAY_MS) doc_recent"
    by (simp add: retention_expired_def example_defs)
  have e3: "\<not> retention_expired (100 * DAY_MS) doc_held"
    by (simp add: retention_expired_def example_defs)
  from retention_sweep[OF f d, of "100 * DAY_MS"]
  have "documents (snd (retention_enforcement_handler (100 * DAY_MS) ?w))
           = map (\<lambda>doc. if retention_expired (100 * DAY_MS) doc
                         then doc\<lparr>doc_status := DELETING, updatedAt := 100 * DAY_MS\<rparr> else doc) (documents ?w)"
    by blast
  also have "\<dots> = [doc_held, doc_recent, doc_old\<lparr>doc_status := DELETING, updatedAt := 100 * DAY_MS\<rparr>]"
    using e1 e2 e3 by (simp add: empty_world_def)
  finally show ?thesis using e1 e2 by simp
qed

text \<open>
  C7 at the example job: denied at count 1 of limit 1, accepted on a fresh counter, and
  completed with failure, which returns the slot.
\<close>

theorem stage_admission_witness:
  "fst (enforceAndStartProcessing example_request 5
      (empty_world\<lparr>concurrency := [''t1'' \<mapsto> \<lparr>current_count = 1, concurrency_limit = 1\<rparr>],
                    processing_jobs := [example_job]\<rparr>))
     = Inr \<lparr>res_documentId = ''d1'', res_versionId = ''v1'', res_status = QUEUED,
            concurrencyStatus = None,
            reason = Some ''Tenant concurrency limit reached (1). Task will retry.''\<rparr> \<and>
   processing_jobs (snd (enforceAndStartProcessing example_request 5
      (empty_world\<lparr>concurrency := [''t1'' \<mapsto> \<lparr>current_count = 1, concurrency_limit = 1\<rparr>],
                    processing_jobs := [example_job]\<rparr>)))
     = [example_job\<lparr>job_status := PENDING, attempts := 1\<rparr>] \<and>
   fst (enforceAndStartProcessing example_request 5 (empty_world\<lparr>processing_jobs := [example_job]\<rparr>))
     = Inr \<lparr>res_documentId = ''d1'', res_versionId = ''v1'', res_status = ACCEPTED,
            concurrencyStatus = Some \<lparr>tenantId = ''t1'', currentCount = 1, limit = 1, available = 0\<rparr>,
            reason = None\<rparr> \<and>
   processing_jobs (snd (enforceAndStartProcessing example_request 5
      (empty_world\<lparr>processing_jobs := [example_job]\<rparr>)))
     = [example_job\<lparr>job_status := RUNNING, startedAt := Some 5\<rparr>] \<and>
   concurrency (snd (enforceAndStartProcessing example_request 5
      (empty_world\<lparr>processing_jobs := [example_job]\<rparr>)))
     = [''t1'' \<mapsto> \<lparr>current_count = 1, concurrency_limit = 1\<rparr>] \<and>
   processing_jobs (snd (completeProcessing ''d1'' ''v1'' ''t1'' ''OCR'' False 5
      (empty_world\<lparr>concurrency := [''t1'' \<mapsto> \<lparr>current_count = 1, concurrency_limit = 1\<rparr>],
                    processing_jobs := [example_job]\<rparr>)))
     = [example_job\<lparr>job_status := FAILED, completedAt := Some 5\<rparr>] \<and>
   concurrency (snd (completeProcessing ''d1'' ''v1'' ''t1'' ''OCR'' False 5
      (empty_world\<lparr>concurrency := [''t1'' \<mapsto> \<lparr>current_count = 1, concurrency_limit = 1\<rparr>],
                    processing_jobs := [example_job]\<rparr>)))
     = [''t1'' \<mapsto> \<lparr>current_count = 0, concurrency_limit = 1\<rparr>]"
proof -
  let ?it = "\<lparr>current_count = 1, concurrency_limit = 1\<rparr>"
  let ?full = "empty_world\<lparr>concurrency := [''t1'' \<mapsto> ?it], processing_jobs := [example_job]\<rparr>"
  let ?free = "empty_world\<lparr>processing_jobs := [example_job]\<rparr>"
  have f1: "db_faults ?full = []" by (simp add: empty_world_def)
  have f2: "db_faults ?free = []" by (simp add: empty_world_def)
  have den: "concurrency ?full (req_tenantId example_request) = Some ?it
             \<and> \<not> of_int (current_count ?it) < concurrency_limit ?it"
    by (simp add: example_request_def)
  have fresh: "concurrency ?free (req_tenantId example_request) = None"
    by (simp add: example_request_def empty_world_def)
  have one: "toString 1 = ''1''"
    by (simp add: toString_def nat_toString.simps digit_char_def)
  note full = stage_admission[OF f1, of example_request 5 "''d1''" "''v1''" "''t1''" "''OCR''" False]
  note free = stage_admission[OF f2, of example_request 5 "''d1''" "''v1''" "''t1''" "''OCR''" False]
  from full den
  have q: "enforceAndStartProcessing example_request 5 ?full =
              (Inr \<lparr>res_documentId = req_documentId example_request, res_versionId = req_versionId example_request,
                    res_status = QUEUED, concurrencyStatus = None,
                    reason = Some (''Tenant concurrency limit reached (''
                                     @ toString (parseInt (concurrency_limit ?it)) @ ''). Task will retry.'')\<rparr>,
               ?full\<lparr>processing_jobs :=
                     map (\<lambda>job. if job_matches (req_documentId example_request) (req_versionId example_request)
                                      (req_jobType example_request) job
                                 then job\<lparr>job_status := PENDING, attempts := attempts job + 1\<rparr>
                                 else job) (processing_jobs ?full),
                  executed := executed ?full @ [UPDATE_job_pending (req_documentId example_request)
                                 (req_versionId example_request) (req_jobType example_request)]\<rparr>)"
    by blast
  from full
  have c: "completeProcessing ''d1'' ''v1'' ''t1'' ''OCR'' False 5 ?full =
           (Inr (),
            ?full\<lparr>concurrency :=
                 (case concurrency ?full ''t1'' of
                    None \<Rightarrow> concurrency ?full
                  | Some it \<Rightarrow>
                      if 0 < current_count it
                      then (concurrency ?full)(''t1'' \<mapsto> it\<lparr>current_count := current_count it - 1\<rparr>)
                      else concurrency ?full),
               processing_jobs :=
                 map (\<lambda>job. if job_matches ''d1'' ''v1'' ''OCR'' job
                             then job\<lparr>job_status := (if False then COMPLETED else FAILED),
                                      completedAt := Some 5\<rparr>
                             else job) (processing_jobs ?full),
               executed := executed ?full @ [UPDATE_job_completed (if False then COMPLETED else FAILED)
                                           ''d1'' ''v1'' ''OCR'']\<rparr>)"
    by blast
  from free fresh
  have acq: "acquireConcurrencySlot (req_tenantId example_request) (req_concurrencyLimit example_request)
                (concurrency ?free)
              = (Inr \<lparr>tenantId = req_tenantId example_request, currentCount = 1,
                      limit = parseInt (or_default (req_concurrencyLimit example_request) 10),
                      available = max 0 (parseInt (or_default (req_concurrencyLimit example_request) 10)
                                           - 1)\<rparr>,
                 (concurrency ?free)(req_tenantId example_request
                    \<mapsto> \<lparr>current_count = 1,
                        concurrency_limit = or_default (req_concurrencyLimit example_request) 10\<rparr>))"
    by blast
  from free acq
  have a: "enforceAndStartProcessing example_request 5 ?free =
              (Inr \<lparr>res_documentId = req_documentId example_request, res_versionId = req_versionId example_request,
                    res_status = ACCEPTED,
                    concurrencyStatus = Some \<lparr>tenantId = req_tenantId example_request, currentCount = 1,
                      limit = parseInt (or_default (req_concurrencyLimit example_request) 10),
                      available = max 0 (parseInt (or_default (req_concurrencyLimit example_request) 10)
                                           - 1)\<rparr>, reason = None\<rparr>,
               ?free\<lparr>concurrency := (concurrency ?free)(req_tenantId example_request
                    \<mapsto> \<lparr>current_count = 1,
                        concurrency_limit = or_default (req_concurrencyLimit example_request) 10\<rparr>),
                  processing_jobs :=
                     map (\<lambda>job. if job_matches (req_documentId example_request) (req_versionId example_request)
                                      (req_jobType example_request) job
                                 then job\<lparr>job_status := RUNNING, startedAt := Some 5\<rparr>
                                 else job) (processing_jobs ?free),
                  executed := executed ?free @ [UPDATE_job_running (req_documentId example_request)
                                 (req_versionId example_request) (req_jobType example_request)]\<rparr>)"
    by blast
  show ?thesis
    unfolding q a c
    by (simp add: one example_request_def example_job_def job_matches_def empty_world_def
        or_default_def parseInt_def)
qed

section \<open>Properties of the hard-delete worker\<close>

lemma sort_eq_Nil: "sort xs = [] \<longleftrightarrow> xs = []"
  by (metis length_sort length_0_conv)

lemma delete_page_ok:
  assumes "s3_faults w = []"
  shows "delete_page pfx tok w =
     (Inr (length (next_page pfx tok w),
           if next_page pfx tok w \<noteq> []
              \<and> length (next_page pfx tok w)
                  < length (filter (\<lambda>k. prefix pfx k \<and> after_token tok k) (objects w))
           then Some (last (next_page pfx tok w)) else None),
      w\<lparr>objects := filter (\<lambda>k. k \<notin> set (next_page pfx tok w)) (objects w)\<rparr>)"
  using assms
  by (auto simp: delete_page_def ListObjectsV2_def DeleteObjects_def Let_def next_page_def
      sort_eq_Nil)

lemma next_page_subset:
  "k \<in> set (next_page pfx tok w) \<Longrightarrow> k \<in> set (objects w) \<and> prefix pfx k \<and> after_token tok k"
  by (auto simp: next_page_def dest: in_set_takeD)

lemma beyond_page:
  assumes "k \<in> set (objects w)" "prefix pfx k" "after_token tok k"
    and "k \<notin> set (next_page pfx tok w)" and "next_page pfx tok w \<noteq> []"
  shows "last (next_page pfx tok w) < k"
proof -
  let ?m = "sort (filter (\<lambda>k. prefix pfx k \<and> after_token tok k) (objects w))"
  let ?n = "max_keys w"
  have km: "k \<in> set ?m" using assms(1-3) by simp
  have "?m = take ?n ?m @ drop ?n ?m" by simp
  then have "set ?m = set (take ?n ?m) \<union> set (drop ?n ?m)" by (metis set_append)
  with km assms(4) have kd: "k \<in> set (drop ?n ?m)" by (auto simp: next_page_def)
  have "sorted (take ?n ?m @ drop ?n ?m)" by simp
  then have "\<forall>x\<in>set (take ?n ?m). \<forall>y\<in>set (drop ?n ?m). x \<le> y"
    unfolding sorted_append by blast
  moreover have "last (next_page pfx tok w) \<in> set (take ?n ?m)"
    using assms(5) by (simp add: next_page_def)
  ultimately have "last (next_page pfx tok w) \<le> k" using kd by blast
  moreover have "last (next_page pfx tok w) \<noteq> k"
    using assms(4,5) last_in_set by metis
  ultimately show ?thesis by simp
qed

lemma whole_page:
  assumes "\<not> length (next_page pfx tok w)
                  < length (filter (\<lambda>k. prefix pfx k \<and> after_token tok k) (objects w))"
  shows "set (next_page pfx tok w) = {k \<in> set (objects w). prefix pfx k \<and> after_token tok k}"
proof -
  let ?m = "sort (filter (\<lambda>k. prefix pfx k \<and> after_token tok k) (objects w))"
  from assms have "length ?m \<le> max_keys w" by (simp add: next_page_def)
  then have "next_page pfx tok w = ?m" by (simp add: next_page_def)
  then show ?thesis by auto
qed

lemma empty_page:
  assumes "next_page pfx tok w = []" and "0 < max_keys w"
  shows "{k \<in> set (objects w). prefix pfx k \<and> after_token tok k} = {}"
proof -
  from assms have "sort (filter (\<lambda>k. prefix pfx k \<and> after_token tok k) (objects w)) = []"
    by (auto simp: next_page_def)
  then have "set (sort (filter (\<lambda>k. prefix pfx k \<and> after_token tok k) (objects w))) = {}"
    by simp
  then show ?thesis by auto
qed

lemma deleteObjectsWithPrefix_from_ok:
  assumes "s3_faults w = []" and "0 < max_keys w" and "pfx \<noteq> []"
    and "\<forall>k\<in>set (objects w). prefix pfx k \<longrightarrow> after_token tok k"
  shows "\<exists>n. deleteObjectsWithPrefix_from pfx tok acc w
           = (Inr n, w\<lparr>objects := filter (\<lambda>k. \<not> prefix pfx k) (objects w)\<rparr>)"
  using assms
proof (induction pfx tok acc w rule: deleteObjectsWithPrefix_from.induct)
  case (1 pfx tok acc w)
  let ?page = "next_page pfx tok w"
  let ?w1 = "w\<lparr>objects := filter (\<lambda>k. k \<notin> set ?page) (objects w)\<rparr>"
  note dp = delete_page_ok[OF "1.prems"(1), of pfx tok]
  show ?case
  proof (cases "?page \<noteq> [] \<and> length ?page
                  < length (filter (\<lambda>k. prefix pfx k \<and> after_token tok k) (objects w))")
    case True
    then have ne: "?page \<noteq> []" by simp
    have lp: "prefix pfx (last ?page)"
      using next_page_subset[of "last ?page" pfx tok w] ne by simp
    with "1.prems"(3) have "last ?page \<noteq> []" by auto
    then have tr: "truthy (Some (last ?page))" by (simp add: truthy_def)
    have inv: "\<forall>k\<in>set (objects ?w1). prefix pfx k \<longrightarrow> after_token (Some (last ?page)) k"
    proof (intro ballI impI)
      fix k assume k: "k \<in> set (objects ?w1)" and p: "prefix pfx k"
      then have "k \<in> set (objects w)" "k \<notin> set ?page" by auto
      moreover from this p "1.prems"(4) have "after_token tok k" by blast
      ultimately have "last ?page < k" using p ne by (intro beyond_page) auto
      then show "after_token (Some (last ?page)) k" by (simp add: after_token_def)
    qed
    have dp': "delete_page pfx tok w = (Inr (length ?page, Some (last ?page)), ?w1)"
      using dp True by simp
    from "1.IH"[OF dp'[symmetric] refl refl tr] "1.prems" inv
    obtain n where n: "deleteObjectsWithPrefix_from pfx (Some (last ?page)) (acc + length ?page) ?w1
        = (Inr n, ?w1\<lparr>objects := filter (\<lambda>k. \<not> prefix pfx k) (objects ?w1)\<rparr>)"
      by auto
    have "filter (\<lambda>k. \<not> prefix pfx k) (objects ?w1) = filter (\<lambda>k. \<not> prefix pfx k) (objects w)"
      using next_page_subset[of _ pfx tok w] by (auto intro!: filter_cong)
    with n dp' tr show ?thesis
      by (subst deleteObjectsWithPrefix_from.simps) auto
  next
    case False
    then have dp': "delete_page pfx tok w = (Inr (length ?page, None), ?w1)"
      using dp by simp
    have "{k \<in> set (objects w). prefix pfx k \<and> after_token tok k} = set ?page"
    proof (cases "?page = []")
      case True
      with empty_page[OF True "1.prems"(2)] show ?thesis by simp
    next
      case False
      with \<open>\<not> (?page \<noteq> [] \<and> _)\<close> whole_page[of pfx tok w] show ?thesis by simp
    qed
    with "1.prems"(4) have "\<And>k. k \<in> set (objects w) \<Longrightarrow> (k \<notin> set ?page) = (\<not> prefix pfx k)"
      by auto
    then have "filter (\<lambda>k. k \<notin> set ?page) (objects w) = filter (\<lambda>k. \<not> prefix pfx k) (objects w)"
      by (intro filter_cong) auto
    with dp' show ?thesis
      by (subst deleteObjectsWithPrefix_from.simps) (simp add: truthy_def)
  qed
qed


lemma delete_page_same_rows: "same_rows w (snd (delete_page pfx tok w))"
  by (auto simp: same_rows_def delete_page_def ListObjectsV2_def DeleteObjects_def Let_def
      split: list.splits bool.splits prod.splits sum.splits)

lemma same_rows_trans: "same_rows w w1 \<Longrightarrow> same_rows w1 w2 \<Longrightarrow> same_rows w w2"
  by (simp add: same_rows_def)

lemma deleteObjectsWithPrefix_from_same_rows:
  "same_rows w (snd (deleteObjectsWithPrefix_from pfx tok acc w))"
proof (induction pfx tok acc w rule: deleteObjectsWithPrefix_from.induct)
  case (1 pfx tok acc w)
  obtain r w1 where dp: "delete_page pfx tok w = (r, w1)" by (cases "delete_page pfx tok w")
  with delete_page_same_rows[of w pfx tok] have s1: "same_rows w w1" by simp
  show ?case
  proof (cases r)
    case (Inl e)
    with dp s1 show ?thesis by (subst deleteObjectsWithPrefix_from.simps) simp
  next
    case (Inr b)
    obtain n nxt where b: "b = (n, nxt)" by (cases b)
    show ?thesis
    proof (cases "truthy nxt")
      case True
      from "1.IH"[OF dp[symmetric] Inr b[symmetric] True]
      have "same_rows w1 (snd (deleteObjectsWithPrefix_from pfx nxt (acc + n) w1))" .
      with s1 have "same_rows w (snd (deleteObjectsWithPrefix_from pfx nxt (acc + n) w1))"
        by (rule same_rows_trans)
      with dp Inr b True show ?thesis by (subst deleteObjectsWithPrefix_from.simps) simp
    next
      case False
      with dp Inr b s1 show ?thesis by (subst deleteObjectsWithPrefix_from.simps) simp
    qed
  qed
qed

lemma deleteS3Objects_same_rows: "same_rows w (snd (deleteS3Objects tenant d w))"
proof -
  obtain r w1 where a: "deleteObjectsWithPrefix (document_prefix tenant d) w = (r, w1)"
    by (cases "deleteObjectsWithPrefix (document_prefix tenant d) w")
  obtain r2 w2 where b: "deleteObjectsWithPrefix (derived_prefix tenant d) w1 = (r2, w2)"
    by (cases "deleteObjectsWithPrefix (derived_prefix tenant d) w1")
  from a deleteObjectsWithPrefix_from_same_rows[of w "document_prefix tenant d" None 0]
  have s1: "same_rows w w1" by (simp add: deleteObjectsWithPrefix_def)
  from b deleteObjectsWithPrefix_from_same_rows[of w1 "derived_prefix tenant d" None 0]
  have s2: "same_rows w1 w2" by (simp add: deleteObjectsWithPrefix_def)
  from s1 s2 have "same_rows w w2" by (rule same_rows_trans)
  with a b s1 show ?thesis
    by (auto simp: deleteS3Objects_def split: sum.splits)
qed

lemma deleteS3Objects_ok:
  assumes "s3_faults w = []" and "0 < max_keys w"
  shows "deleteS3Objects tenant d w =
     (Inr (), w\<lparr>objects := filter (\<lambda>k. \<not> prefix (document_prefix tenant d) k
                                    \<and> \<not> prefix (derived_prefix tenant d) k) (objects w)\<rparr>)"
proof -
  let ?p1 = "document_prefix tenant d" and ?p2 = "derived_prefix tenant d"
  let ?w1 = "w\<lparr>objects := filter (\<lambda>k. \<not> prefix ?p1 k) (objects w)\<rparr>"
  have ne: "?p1 \<noteq> []" "?p2 \<noteq> []" by (simp_all add: document_prefix_def derived_prefix_def)
  from deleteObjectsWithPrefix_from_ok[OF assms ne(1), of None 0]
  obtain n1 where a: "deleteObjectsWithPrefix ?p1 w = (Inr n1, ?w1)"
    by (auto simp: deleteObjectsWithPrefix_def after_token_def)
  have "s3_faults ?w1 = []" "0 < max_keys ?w1" using assms by simp_all
  from deleteObjectsWithPrefix_from_ok[OF this ne(2), of None 0]
  obtain n2 where b: "deleteObjectsWithPrefix ?p2 ?w1
      = (Inr n2, ?w1\<lparr>objects := filter (\<lambda>k. \<not> prefix ?p2 k) (objects ?w1)\<rparr>)"
    by (auto simp: deleteObjectsWithPrefix_def after_token_def)
  have "filter (\<lambda>k. \<not> prefix ?p2 k) (objects ?w1)
      = filter (\<lambda>k. \<not> prefix ?p1 k \<and> \<not> prefix ?p2 k) (objects w)"
    by (auto intro!: filter_cong)
  with a b show ?thesis by (simp add: deleteS3Objects_def)
qed

lemma delete_transaction_ok:
  assumes "db_faults w = []"
  shows "withTransaction (delete_rows d) now w =
     (Inr (),
      w\<lparr>processing_jobs := filter (\<lambda>job. job_documentId job \<noteq> d) (processing_jobs w),
        document_versions := filter (\<lambda>v. ver_documentId v \<noteq> d) (document_versions w),
        documents := filter (\<lambda>doc. doc_id doc \<noteq> d) (documents w),
        executed := executed w @ [BEGIN, DELETE_processing_jobs d, DELETE_document_versions d,
                                  DELETE_document d, COMMIT]\<rparr>)"
  using assms by (simp add: withTransaction_def delete_rows_def query_ok)

lemma query_audit_logs:
  "(\<And>l. stmt \<noteq> INSERT_audit_log l) \<Longrightarrow> audit_logs (snd (query stmt rows now w)) = audit_logs w"
  by (cases stmt) (auto simp: query_def split: list.splits bool.splits)

lemma rollback_audit_logs:
  "audit_logs (snd (rollback e w0 now w :: (error + 'a) \<times> world)) = audit_logs w0"
  by (auto simp: rollback_def restore_tables_def query_def split: list.splits bool.splits prod.splits sum.splits)

lemma delete_rows_audit_logs:
  "audit_logs (snd (delete_rows d now w)) = audit_logs w"
proof -
  obtain r1 w1 where a: "query (DELETE_processing_jobs d) no_rows now w = (r1, w1)"
    by (cases "query (DELETE_processing_jobs d) no_rows now w")
  then have a1: "audit_logs w1 = audit_logs w"
    using query_audit_logs[of "DELETE_processing_jobs d" no_rows now w] by simp
  obtain r2 w2 where b: "query (DELETE_document_versions d) no_rows now w1 = (r2, w2)"
    by (cases "query (DELETE_document_versions d) no_rows now w1")
  then have a2: "audit_logs w2 = audit_logs w"
    using query_audit_logs[of "DELETE_document_versions d" no_rows now w1] a1 by simp
  obtain r3 w3 where c: "query (DELETE_document d) no_rows now w2 = (r3, w3)"
    by (cases "query (DELETE_document d) no_rows now w2")
  then have a3: "audit_logs w3 = audit_logs w"
    using query_audit_logs[of "DELETE_document d" no_rows now w2] a2 by simp
  show ?thesis
    using a b c a1 a2 a3 by (auto simp: delete_rows_def split: sum.splits)
qed

lemma withTransaction_delete_audit_logs:
  "audit_logs (snd (withTransaction (delete_rows d) now w)) = audit_logs w"
proof -
  obtain r1 w1 where b: "query BEGIN no_rows now w = (r1, w1)" by (cases "query BEGIN no_rows now w")
  then have a1: "audit_logs w1 = audit_logs w" using query_audit_logs[of BEGIN no_rows now w] by simp
  obtain r2 w2 where c: "delete_rows d now w1 = (r2, w2)" by (cases "delete_rows d now w1")
  then have a2: "audit_logs w2 = audit_logs w" using delete_rows_audit_logs[of d now w1] a1 by simp
  obtain r3 w3 where m: "query COMMIT no_rows now w2 = (r3, w3)" by (cases "query COMMIT no_rows now w2")
  then have a3: "audit_logs w3 = audit_logs w" using query_audit_logs[of COMMIT no_rows now w2] a2 by simp
  show ?thesis
    using b c m a3 by (auto simp: withTransaction_def rollback_audit_logs split: sum.splits)
qed

lemma processMessage_audit_logs:
  "audit_logs (snd (processMessage message now w)) = audit_logs w"
proof -
  let ?d = "msg_documentId message" and ?t = "msg_tenantId message"
  obtain r1 w1 where a: "query (SELECT_document_of_tenant ?d ?t) document_rows now w = (r1, w1)"
    by (cases "query (SELECT_document_of_tenant ?d ?t) document_rows now w")
  then have a1: "audit_logs w1 = audit_logs w"
    using query_audit_logs[of "SELECT_document_of_tenant ?d ?t" document_rows now w] by simp
  obtain r2 w2 where b: "query (SELECT_document_versions ?d) version_rows now w1 = (r2, w2)"
    by (cases "query (SELECT_document_versions ?d) version_rows now w1")
  then have a2: "audit_logs w2 = audit_logs w"
    using query_audit_logs[of "SELECT_document_versions ?d" version_rows now w1] a1 by simp
  obtain r3 w3 where c: "deleteS3Objects ?t ?d w2 = (r3, w3)" by (cases "deleteS3Objects ?t ?d w2")
  then have a3: "audit_logs w3 = audit_logs w"
    using deleteS3Objects_same_rows[of w2 ?t ?d] a2 by (simp add: same_rows_def)
  have a4: "audit_logs (snd (withTransaction (delete_rows ?d) now w3)) = audit_logs w"
    using withTransaction_delete_audit_logs[of ?d now w3] a3 by simp
  show ?thesis
    using a b c a1 a2 a3 a4
    by (auto simp: processMessage_def queryOne_def split: sum.splits list.splits)
qed

text \<open>
  C4: the audit log is the same after \<open>processMessage\<close> as before, whatever fails. With
  the row store answering: when no document has the id and tenant of the message, or its
  status is not \<open>DELETING\<close>, nothing changes (one \<open>SELECT\<close> is executed). Otherwise,
  with the object store answering, every key under the document prefix and under the
  derived prefix is gone and no other key, and the statements executed after the two
  \<open>SELECT\<close>s are \<open>BEGIN\<close>, the deletes of the jobs, of the versions and of the document,
  in that order, and \<open>COMMIT\<close>, leaving none of those rows. When the object deletion
  throws, \<open>processMessage\<close> throws the same error with every table as it was.
\<close>

theorem hard_delete:
  "audit_logs (snd (processMessage message now w)) = audit_logs w \<and>
   (db_faults w = [] \<longrightarrow>
    (find (\<lambda>doc. doc_id doc = msg_documentId message \<and> doc_tenantId doc = msg_tenantId message)
        (documents w) = None
     \<or> (\<exists>doc. find (\<lambda>doc. doc_id doc = msg_documentId message
                            \<and> doc_tenantId doc = msg_tenantId message) (documents w) = Some doc
              \<and> doc_status doc \<noteq> DELETING)
     \<longrightarrow> processMessage message now w
           = (Inr (), w\<lparr>executed := executed w
                @ [SELECT_document_of_tenant (msg_documentId message) (msg_tenantId message)]\<rparr>)) \<and>
    ((\<exists>doc. find (\<lambda>doc. doc_id doc = msg_documentId message
                          \<and> doc_tenantId doc = msg_tenantId message) (documents w) = Some doc
            \<and> doc_status doc = DELETING)
       \<and> s3_faults w = [] \<and> 0 < max_keys w
     \<longrightarrow> processMessage message now w
           = (Inr (),
              w\<lparr>objects :=
                  filter (\<lambda>k. \<not> prefix (document_prefix (msg_tenantId message)
                                                  (msg_documentId message)) k
                             \<and> \<not> prefix (derived_prefix (msg_tenantId message)
                                                   (msg_documentId message)) k) (objects w),
                processing_jobs :=
                  filter (\<lambda>job. job_documentId job \<noteq> msg_documentId message) (processing_jobs w),
                document_versions :=
                  filter (\<lambda>v. ver_documentId v \<noteq> msg_documentId message) (document_versions w),
                documents := filter (\<lambda>doc. doc_id doc \<noteq> msg_documentId message) (documents w),
                executed := executed w
                  @ [SELECT_document_of_tenant (msg_documentId message) (msg_tenantId message),
                     SELECT_document_versions (msg_documentId message),
                     BEGIN, DELETE_processing_jobs (msg_documentId message),
                     DELETE_document_versions (msg_documentId message),
                     DELETE_document (msg_documentId message), COMMIT]\<rparr>)) \<and>
    ((\<exists>doc. find (\<lambda>doc. doc_id doc = msg_documentId message
                          \<and> doc_tenantId doc = msg_tenantId message) (documents w) = Some doc
            \<and> doc_status doc = DELETING)
     \<longrightarrow> (\<forall>e w3. deleteS3Objects (msg_tenantId message) (msg_documentId message)
                     (w\<lparr>executed := executed w
                          @ [SELECT_document_of_tenant (msg_documentId message)
                               (msg_tenantId message),
                             SELECT_document_versions (msg_documentId message)]\<rparr>) = (Inl e, w3)
            \<longrightarrow> processMessage message now w = (Inl e, w3) \<and> same_rows w w3)))"
proof (intro conjI impI allI)
  show "audit_logs (snd (processMessage message now w)) = audit_logs w"
    by (rule processMessage_audit_logs)
next
  assume assms: "db_faults w = []"
  assume "find (\<lambda>doc. doc_id doc = msg_documentId message \<and> doc_tenantId doc = msg_tenantId message)
        (documents w) = None
     \<or> (\<exists>doc. find (\<lambda>doc. doc_id doc = msg_documentId message
                            \<and> doc_tenantId doc = msg_tenantId message) (documents w) = Some doc
              \<and> doc_status doc \<noteq> DELETING)"
  with assms show "processMessage message now w
           = (Inr (), w\<lparr>executed := executed w
                @ [SELECT_document_of_tenant (msg_documentId message) (msg_tenantId message)]\<rparr>)"
    by (auto simp: processMessage_def queryOne_def query_ok first_row_find)
next
  let ?w2 = "w\<lparr>executed := executed w
                          @ [SELECT_document_of_tenant (msg_documentId message)
                               (msg_tenantId message),
                             SELECT_document_versions (msg_documentId message)]\<rparr>"
  assume assms: "db_faults w = []"
  assume a: "(\<exists>doc. find (\<lambda>doc. doc_id doc = msg_documentId message
                          \<and> doc_tenantId doc = msg_tenantId message) (documents w) = Some doc
            \<and> doc_status doc = DELETING)
       \<and> s3_faults w = [] \<and> 0 < max_keys w"
  then have "s3_faults ?w2 = []" "0 < max_keys ?w2" by simp_all
  note s3 = deleteS3Objects_ok[OF this, of "msg_tenantId message" "msg_documentId message"]
  from a assms show "processMessage message now w
           = (Inr (),
              w\<lparr>objects :=
                  filter (\<lambda>k. \<not> prefix (document_prefix (msg_tenantId message)
                                                  (msg_documentId message)) k
                             \<and> \<not> prefix (derived_prefix (msg_tenantId message)
                                                   (msg_documentId message)) k) (objects w),
                processing_jobs :=
                  filter (\<lambda>job. job_documentId job \<noteq> msg_documentId message) (processing_jobs w),
                document_versions :=
                  filter (\<lambda>v. ver_documentId v \<noteq> msg_documentId message) (document_versions w),
                documents := filter (\<lambda>doc. doc_id doc \<noteq> msg_documentId message) (documents w),
                executed := executed w
                  @ [SELECT_document_of_tenant (msg_documentId message) (msg_tenantId message),
                     SELECT_document_versions (msg_documentId message),
                     BEGIN, DELETE_processing_jobs (msg_documentId message),
                     DELETE_document_versions (msg_documentId message),
                     DELETE_document (msg_documentId message), COMMIT]\<rparr>)"
    by (auto simp: processMessage_def queryOne_def query_ok first_row_find s3
        delete_transaction_ok)
next
  fix e w3
  let ?w2 = "w\<lparr>executed := executed w
                          @ [SELECT_document_of_tenant (msg_documentId message)
                               (msg_tenantId message),
                             SELECT_document_versions (msg_documentId message)]\<rparr>"
  assume assms: "db_faults w = []"
  assume a: "\<exists>doc. find (\<lambda>doc. doc_id doc = msg_documentId message
                          \<and> doc_tenantId doc = msg_tenantId message) (documents w) = Some doc
            \<and> doc_status doc = DELETING"
    and f: "deleteS3Objects (msg_tenantId message) (msg_documentId message) ?w2 = (Inl e, w3)"
  from a f assms show "processMessage message now w = (Inl e, w3)"
    by (auto simp: processMessage_def queryOne_def query_ok first_row_find)
  from deleteS3Objects_same_rows[of ?w2 "msg_tenantId message" "msg_documentId message"] f
  show "same_rows w w3" by (simp add: same_rows_def)
qed

text \<open>A listing of one key per page: two rounds delete the two keys of the prefix.\<close>

lemma pagination_example:
  "deleteObjectsWithPrefix ''t1/documents/d5/'' hard_delete_world
     = (Inr 2, hard_delete_world\<lparr>objects := [''t1/derived/d5/v1/thumb'', ''t1/documents/d2/v1/original'']\<rparr>)"
  by (simp add: deleteObjectsWithPrefix_def deleteObjectsWithPrefix_from.simps delete_page_def
      ListObjectsV2_def DeleteObjects_def hard_delete_world_def empty_world_def truthy_def
      after_token_def Let_def prefix_code)

text \<open>
  C4 on the example world: a message for the ready document changes nothing, a message for
  the document in \<open>DELETING\<close> purges it, and a failing batch delete leaves the rows.
\<close>

theorem hard_delete_witness:
  "processMessage (hard_delete_message ''d2'') 0 hard_delete_world
     = (Inr (), hard_delete_world\<lparr>executed := [SELECT_document_of_tenant ''d2'' ''t1'']\<rparr>) \<and>
   fst (processMessage (hard_delete_message ''d5'') 0 hard_delete_world) = Inr () \<and>
   objects (snd (processMessage (hard_delete_message ''d5'') 0 hard_delete_world))
     = [''t1/documents/d2/v1/original''] \<and>
   documents (snd (processMessage (hard_delete_message ''d5'') 0 hard_delete_world)) = [doc_ready] \<and>
   document_versions (snd (processMessage (hard_delete_message ''d5'') 0 hard_delete_world)) = [] \<and>
   processing_jobs (snd (processMessage (hard_delete_message ''d5'') 0 hard_delete_world)) = [] \<and>
   audit_logs (snd (processMessage (hard_delete_message ''d5'') 0 hard_delete_world))
     = audit_logs hard_delete_world \<and>
   executed (snd (processMessage (hard_delete_message ''d5'') 0 hard_delete_world))
     = [SELECT_document_of_tenant ''d5'' ''t1'', SELECT_document_versions ''d5'', BEGIN,
        DELETE_processing_jobs ''d5'', DELETE_document_versions ''d5'', DELETE_document ''d5'',
        COMMIT] \<and>
   fst (processMessage (hard_delete_message ''d5'') 0 (hard_delete_world\<lparr>s3_faults := [False, True]\<rparr>))
     = Inl (Error ''ServiceUnavailable'' ''request failed'') \<and>
   same_rows hard_delete_world
     (snd (processMessage (hard_delete_message ''d5'') 0
             (hard_delete_world\<lparr>s3_faults := [False, True]\<rparr>)))"
proof -
  let ?w = hard_delete_world
  let ?wf = "hard_delete_world\<lparr>s3_faults := [False, True]\<rparr>"
  let ?m2 = "hard_delete_message ''d2''" and ?m5 = "hard_delete_message ''d5''"
  have f: "db_faults ?w = []" "db_faults ?wf = []"
    by (simp_all add: hard_delete_world_def empty_world_def)
  have s: "s3_faults ?w = [] \<and> 0 < max_keys ?w"
    by (simp add: hard_delete_world_def empty_world_def)
  have d2: "find (\<lambda>doc. doc_id doc = msg_documentId ?m2 \<and> doc_tenantId doc = msg_tenantId ?m2)
              (documents ?w) = Some doc_ready \<and> doc_status doc_ready \<noteq> DELETING"
    by (simp add: hard_delete_world_def hard_delete_message_def example_defs doc_deleting_def)
  have d5: "find (\<lambda>doc. doc_id doc = msg_documentId ?m5 \<and> doc_tenantId doc = msg_tenantId ?m5)
              (documents ?w) = Some doc_deleting \<and> doc_status doc_deleting = DELETING"
    by (simp add: hard_delete_world_def hard_delete_message_def example_defs doc_deleting_def)
  have d5f: "find (\<lambda>doc. doc_id doc = msg_documentId ?m5 \<and> doc_tenantId doc = msg_tenantId ?m5)
              (documents ?wf) = Some doc_deleting \<and> doc_status doc_deleting = DELETING"
    by (simp add: hard_delete_world_def hard_delete_message_def example_defs doc_deleting_def)
  have ex: "executed ?w = []" "executed ?wf = []"
    by (simp_all add: hard_delete_world_def empty_world_def)
  from hard_delete[of ?m2 0 ?w] f(1) d2
  have a: "processMessage ?m2 0 ?w
      = (Inr (), ?w\<lparr>executed := executed ?w
                @ [SELECT_document_of_tenant (msg_documentId ?m2) (msg_tenantId ?m2)]\<rparr>)"
    by blast
  from hard_delete[of ?m5 0 ?w] f(1) d5 s
  have b: "processMessage ?m5 0 ?w
           = (Inr (),
              ?w\<lparr>objects :=
                  filter (\<lambda>k. \<not> prefix (document_prefix (msg_tenantId ?m5)
                                                  (msg_documentId ?m5)) k
                             \<and> \<not> prefix (derived_prefix (msg_tenantId ?m5)
                                                   (msg_documentId ?m5)) k) (objects ?w),
                processing_jobs :=
                  filter (\<lambda>job. job_documentId job \<noteq> msg_documentId ?m5) (processing_jobs ?w),
                document_versions :=
                  filter (\<lambda>v. ver_documentId v \<noteq> msg_documentId ?m5) (document_versions ?w),
                documents := filter (\<lambda>doc. doc_id doc \<noteq> msg_documentId ?m5) (documents ?w),
                executed := executed ?w
                  @ [SELECT_document_of_tenant (msg_documentId ?m5) (msg_tenantId ?m5),
                     SELECT_document_versions (msg_documentId ?m5),
                     BEGIN, DELETE_processing_jobs (msg_documentId ?m5),
                     DELETE_document_versions (msg_documentId ?m5),
                     DELETE_document (msg_documentId ?m5), COMMIT]\<rparr>)"
    by blast
  let ?w2 = "?wf\<lparr>executed := executed ?wf
                          @ [SELECT_document_of_tenant (msg_documentId ?m5) (msg_tenantId ?m5),
                             SELECT_document_versions (msg_documentId ?m5)]\<rparr>"
  have fail: "fst (deleteS3Objects (msg_tenantId ?m5) (msg_documentId ?m5) ?w2)
      = Inl (Error ''ServiceUnavailable'' ''request failed'')"
    by (simp add: deleteS3Objects_def deleteObjectsWithPrefix_def
        deleteObjectsWithPrefix_from.simps delete_page_def ListObjectsV2_def DeleteObjects_def
        hard_delete_world_def empty_world_def hard_delete_message_def document_prefix_def
        after_token_def Let_def prefix_code)
  then obtain w3 where w3: "deleteS3Objects (msg_tenantId ?m5) (msg_documentId ?m5) ?w2
      = (Inl (Error ''ServiceUnavailable'' ''request failed''), w3)"
    by (cases "deleteS3Objects (msg_tenantId ?m5) (msg_documentId ?m5) ?w2") auto
  from hard_delete[of ?m5 0 ?wf] f(2) d5f w3
  have c: "processMessage ?m5 0 ?wf = (Inl (Error ''ServiceUnavailable'' ''request failed''), w3)
           \<and> same_rows ?wf w3"
    by blast
  have sr: "same_rows ?w w3" using c by (simp add: same_rows_def)
  have vals:
    "filter (\<lambda>k. \<not> prefix (document_prefix (msg_tenantId ?m5) (msg_documentId ?m5)) k
                \<and> \<not> prefix (derived_prefix (msg_tenantId ?m5) (msg_documentId ?m5)) k) (objects ?w)
       = [''t1/documents/d2/v1/original'']"
    "filter (\<lambda>job. job_documentId job \<noteq> msg_documentId ?m5) (processing_jobs ?w) = []"
    "filter (\<lambda>v. ver_documentId v \<noteq> msg_documentId ?m5) (document_versions ?w) = []"
    "filter (\<lambda>doc. doc_id doc \<noteq> msg_documentId ?m5) (documents ?w) = [doc_ready]"
    by (simp_all add: hard_delete_world_def empty_world_def hard_delete_message_def
        document_prefix_def derived_prefix_def prefix_code example_job_def doc_deleting_def
        doc_ready_def example_document_def)
  show ?thesis
    unfolding a b vals using c sr by (simp add: ex hard_delete_message_def)
qed

end
